theory Spec2Isabelle
  imports Complex_Main "HOL-Library.Sublist" "HOL-Library.AList"
begin

section \<open>Common conventions\<close>

text \<open>
  The development embeds the core of the MoSP-GeoTool (Python 2) in HOL.
  Python floats are modelled as reals; the two sentinels \<^verbatim>\<open>1e400\<close> and
  \<^verbatim>\<open>-1e400\<close> (plus and minus infinity) get constructors of their own where
  the code uses them. Every exception the modelled code can raise is a value of
  type \<open>error\<close>; a function that can raise returns \<open>error + 'a\<close>.
  The external library pyproj (\<^verbatim>\<open>Geod.inv\<close>, \<^verbatim>\<open>Geod.fwd\<close>, \<^verbatim>\<open>Proj\<close>) is not part of
  the repository and is a parameter of the functions that call it.
\<close>

datatype error =
    ValueError
  | TypeError
  | IndexError
  | AttributeError
  | ZeroDivisionError
  | AssertionError
  | UnboundLocalError
  | KeyError

section \<open>Data model: \<^verbatim>\<open>geo/osm_import.py\<close>\<close>

text \<open>
  A Python dictionary with string keys is an association list; \<^verbatim>\<open>d.get(k)\<close> is
  \<open>map_of d k\<close>, with \<open>None\<close> for an absent key.
\<close>

type_synonym tag_dict = "(string \<times> string) list"

text \<open>\<^verbatim>\<open>d.setdefault(k, v)\<close>: the entry is added only when the key is absent.\<close>

definition setdefault :: "string \<Rightarrow> string \<Rightarrow> tag_dict \<Rightarrow> tag_dict" where
  "setdefault k v d = (if map_of d k = None then d @ [(k, v)] else d)"

text \<open>
  Floats that can be one of the sentinels \<^verbatim>\<open>1e400\<close> (infinity) and \<^verbatim>\<open>-1e400\<close>, or the
  difference of two infinities, with the comparison, subtraction, \<^verbatim>\<open>min\<close> and \<^verbatim>\<open>max\<close>
  of Python floats.
\<close>

datatype pyfloat = Fin real | PosInf | NegInf | NaN

fun flt :: "pyfloat \<Rightarrow> pyfloat \<Rightarrow> bool" where
  "flt (Fin a) (Fin b) = (a < b)"
| "flt (Fin a) PosInf = True"
| "flt NegInf (Fin b) = True"
| "flt NegInf PosInf = True"
| "flt _ _ = False"

fun fsub :: "pyfloat \<Rightarrow> pyfloat \<Rightarrow> pyfloat" where
  "fsub (Fin a) (Fin b) = Fin (a - b)"
| "fsub NaN _ = NaN"
| "fsub _ NaN = NaN"
| "fsub PosInf PosInf = NaN"
| "fsub NegInf NegInf = NaN"
| "fsub PosInf _ = PosInf"
| "fsub NegInf _ = NegInf"
| "fsub (Fin a) PosInf = NegInf"
| "fsub (Fin a) NegInf = PosInf"

definition fmin :: "pyfloat \<Rightarrow> pyfloat \<Rightarrow> pyfloat" where
  "fmin a b = (if flt b a then b else a)"

definition fmax :: "pyfloat \<Rightarrow> pyfloat \<Rightarrow> pyfloat" where
  "fmax a b = (if flt a b then b else a)"

text \<open>A bounding box \<^verbatim>\<open>[min_lon, min_lat, max_lon, max_lat]\<close>.\<close>

type_synonym box = "pyfloat \<times> pyfloat \<times> pyfloat \<times> pyfloat"

text \<open>
  Class \<^verbatim>\<open>Node\<close>. Objects are shared between ways, neighbour lists and partitions, so
  a reference to a node is its OSM id and the objects themselves live in the store
  \<^verbatim>\<open>node_avl\<close> of the data representation; \<^verbatim>\<open>neighbours\<close> is a list of references.
\<close>

record node =
  node_id :: int
  lon :: real
  lat :: real
  n_tags :: tag_dict
  n_attr :: tag_dict
  neighbours :: "int list"
  n_partition_id :: int
  n_filtered :: bool
  n_poi :: int

text \<open>
  Class \<^verbatim>\<open>Way\<close>: \<^verbatim>\<open>nodeIDs\<close> is the list of referenced OSM ids (\<^verbatim>\<open>self.__nodes\<close>),
  \<^verbatim>\<open>nodes\<close> the list of referenced node objects (\<^verbatim>\<open>self.__node_objects\<close>).
\<close>

record way =
  way_id :: int
  nodeIDs :: "int list"
  w_tags :: tag_dict
  w_attr :: tag_dict
  nodes :: "int list"
  w_partition_id :: int
  w_filtered :: bool
  generalized :: "(int \<times> int list) list"
  box :: box

text \<open>A raw relation \<^verbatim>\<open>(osm_id, tags, members, attr)\<close>.\<close>

type_synonym relation = "int \<times> tag_dict \<times> (int \<times> string \<times> string) list \<times> tag_dict"

text \<open>
  Class \<^verbatim>\<open>OSM_objects\<close>. The two AVL trees are keyed by OSM id; they are lists of
  objects with pairwise different ids. The R-trees hold (id, box) entries; \<^verbatim>\<open>poi\<close> is
  the set \<^verbatim>\<open>self.__poi\<close> of the nodes selected as points of interest.
\<close>

record osm_objects =
  relations :: "(int \<times> relation) list"
  node_avl :: "node list"
  way_avl :: "way list"
  street_tree :: "(int \<times> box) list"
  building_tree :: "(int \<times> box) list"
  poi :: "int set"

text \<open>
  The AVL tree operations the code uses (library \<^verbatim>\<open>bintrees\<close>): \<^verbatim>\<open>get\<close> returns
  \<^verbatim>\<open>None\<close> for an absent key, \<^verbatim>\<open>insert\<close> replaces the item of a key already present,
  \<^verbatim>\<open>min_key\<close> and \<^verbatim>\<open>max_key\<close> raise \<^verbatim>\<open>ValueError\<close> on an empty tree.
\<close>

definition avl_get :: "('a \<Rightarrow> int) \<Rightarrow> 'a list \<Rightarrow> int \<Rightarrow> 'a option" where
  "avl_get key t k = find (\<lambda>x. key x = k) t"

definition avl_insert :: "('a \<Rightarrow> int) \<Rightarrow> 'a \<Rightarrow> 'a list \<Rightarrow> 'a list" where
  "avl_insert key x t =
     (if key x \<in> key ` set t then map (\<lambda>y. if key y = key x then x else y) t else t @ [x])"

definition avl_min_key :: "('a \<Rightarrow> int) \<Rightarrow> 'a list \<Rightarrow> error + int" where
  "avl_min_key key t = (if t = [] then Inl ValueError else Inr (Min (key ` set t)))"

definition avl_max_key :: "('a \<Rightarrow> int) \<Rightarrow> 'a list \<Rightarrow> error + int" where
  "avl_max_key key t = (if t = [] then Inl ValueError else Inr (Max (key ` set t)))"

text \<open>Assignment to an attribute of the node, or way, object behind a reference.\<close>

definition upd_node :: "int \<Rightarrow> (node \<Rightarrow> node) \<Rightarrow> osm_objects \<Rightarrow> osm_objects" where
  "upd_node k f st = st\<lparr>node_avl := map (\<lambda>n. if node_id n = k then f n else n) (node_avl st)\<rparr>"

definition upd_way :: "int \<Rightarrow> (way \<Rightarrow> way) \<Rightarrow> osm_objects \<Rightarrow> osm_objects" where
  "upd_way k f st = st\<lparr>way_avl := map (\<lambda>w. if way_id w = k then f w else w) (way_avl st)\<rparr>"

text \<open>
  \<^verbatim>\<open>OSM_objects.find_new_key\<close>. The list \<^verbatim>\<open>keys\<close> is built first, so an empty node or
  way tree raises before anything is compared.
\<close>

definition find_new_key :: "osm_objects \<Rightarrow> error + int" where
  "find_new_key st =
     (case avl_min_key node_id (node_avl st) of Inl e \<Rightarrow> Inl e | Inr node_min \<Rightarrow>
      case avl_max_key node_id (node_avl st) of Inl e \<Rightarrow> Inl e | Inr node_max \<Rightarrow>
      case avl_min_key way_id (way_avl st) of Inl e \<Rightarrow> Inl e | Inr way_min \<Rightarrow>
      case avl_max_key way_id (way_avl st) of Inl e \<Rightarrow> Inl e | Inr way_max \<Rightarrow>
        (let keys = (if relations st = [] then [node_min, node_max, way_min, way_max]
                     else [node_min, node_max, way_min, way_max,
                           Min (fst ` set (relations st)), Max (fst ` set (relations st))])
         in if Min (set keys) \<ge> 0 then Inr (- 1) else Inr (Min (set keys) - 1)))"

text \<open>\<^verbatim>\<open>Node.__init__\<close>.\<close>

definition Node :: "int \<Rightarrow> real \<Rightarrow> real \<Rightarrow> tag_dict \<Rightarrow> tag_dict \<Rightarrow> node" where
  "Node osm_id lon0 lat0 tags attr =
     \<lparr>node_id = osm_id, lon = lon0, lat = lat0, n_tags = tags, n_attr = attr,
      neighbours = [], n_partition_id = 0, n_filtered = False, n_poi = 0\<rparr>"

text \<open>\<^verbatim>\<open>OSM_objects.insert_new_node\<close>; the result is the reference to the new node.\<close>

definition insert_new_node ::
  "osm_objects \<Rightarrow> real \<Rightarrow> real \<Rightarrow> tag_dict \<Rightarrow> tag_dict \<Rightarrow> (error + int) \<times> osm_objects" where
  "insert_new_node st lat0 lon0 tags attr =
     (case find_new_key st of
        Inl e \<Rightarrow> (Inl e, st)
      | Inr osm_id \<Rightarrow>
          (let nd = Node osm_id lon0 lat0 tags (setdefault ''version'' ''1'' attr)
           in (Inr osm_id, st\<lparr>node_avl := avl_insert node_id nd (node_avl st)\<rparr>)))"

text \<open>
  The loop of \<^verbatim>\<open>Way.__init__\<close> over the referenced ids. The accumulator is the bounding
  box so far, the node objects so far and \<^verbatim>\<open>last_node\<close>. A missing node makes
  \<^verbatim>\<open>node_avl.get\<close> return \<^verbatim>\<open>None\<close>, and \<^verbatim>\<open>osm_node.lon\<close> raises \<^verbatim>\<open>AttributeError\<close>;
  the neighbour links made before that stay.
\<close>

fun way_init_loop ::
  "tag_dict \<Rightarrow> int list \<Rightarrow> box \<times> int list \<times> int option \<Rightarrow> osm_objects \<Rightarrow>
   (error + box \<times> int list \<times> int option) \<times> osm_objects" where
  "way_init_loop tags [] acc st = (Inr acc, st)"
| "way_init_loop tags (nid # rest) ((min_lon, min_lat, max_lon, max_lat), node_objects, last_node) st =
     (case avl_get node_id (node_avl st) nid of
        None \<Rightarrow> (Inl AttributeError, st)
      | Some osm_node \<Rightarrow>
          (let min_lon' = (if flt (Fin (lon osm_node)) min_lon then Fin (lon osm_node) else min_lon);
               max_lon' = (if flt max_lon (Fin (lon osm_node)) then Fin (lon osm_node) else max_lon);
               min_lat' = (if flt (Fin (lat osm_node)) min_lat then Fin (lat osm_node) else min_lat);
               max_lat' = (if flt max_lat (Fin (lat osm_node)) then Fin (lat osm_node) else max_lat);
               st' = (case last_node of
                        Some l \<Rightarrow>
                          if map_of tags ''highway'' \<noteq> None then
                            upd_node l (\<lambda>n. n\<lparr>neighbours := neighbours n @ [nid]\<rparr>)
                              (upd_node nid (\<lambda>n. n\<lparr>neighbours := neighbours n @ [l]\<rparr>) st)
                          else st
                      | None \<Rightarrow> st)
           in way_init_loop tags rest
                ((min_lon', min_lat', max_lon', max_lat'), node_objects @ [nid], Some nid) st'))"

text \<open>\<^verbatim>\<open>Way.__init__\<close>, called with the node tree of the data representation.\<close>

definition Way ::
  "int \<Rightarrow> int list \<Rightarrow> tag_dict \<Rightarrow> tag_dict \<Rightarrow> osm_objects \<Rightarrow> (error + way) \<times> osm_objects" where
  "Way osm_id node_ids tags attr st =
     (case way_init_loop tags node_ids ((PosInf, PosInf, NegInf, NegInf), [], None) st of
        (Inl e, st') \<Rightarrow> (Inl e, st')
      | (Inr (bx, node_objects, last_node), st') \<Rightarrow>
          (Inr \<lparr>way_id = osm_id, nodeIDs = node_ids, w_tags = tags, w_attr = attr,
                nodes = node_objects, w_partition_id = 0, w_filtered = False,
                generalized = [], box = bx\<rparr>, st'))"

text \<open>\<^verbatim>\<open>OSM_objects.append_new_street\<close>; the result is the reference to the new way.\<close>

definition append_new_street ::
  "osm_objects \<Rightarrow> tag_dict \<Rightarrow> int list \<Rightarrow> tag_dict \<Rightarrow> (error + int) \<times> osm_objects" where
  "append_new_street st tags node_ids attr =
     (case find_new_key st of
        Inl e \<Rightarrow> (Inl e, st)
      | Inr osm_id \<Rightarrow>
          (case Way osm_id node_ids tags (setdefault ''version'' ''1'' attr) st of
             (Inl e, st') \<Rightarrow> (Inl e, st')
           | (Inr w, st') \<Rightarrow>
               (Inr osm_id,
                st'\<lparr>street_tree := street_tree st' @ [(osm_id, box w)],
                    way_avl := avl_insert way_id w (way_avl st')\<rparr>)))"

text \<open>
  \<^verbatim>\<open>AVLTree.remove\<close> raises \<^verbatim>\<open>KeyError\<close> for an absent key. \<^verbatim>\<open>OSM_objects.delete_way\<close> first
  deletes the entry of the way from the R-tree of the streets, which is silent when
  there is none, and then removes the way from the AVL tree.
\<close>

definition avl_remove :: "('a \<Rightarrow> int) \<Rightarrow> int \<Rightarrow> 'a list \<Rightarrow> error + 'a list" where
  "avl_remove key k t =
     (if k \<in> key ` set t then Inr (filter (\<lambda>x. key x \<noteq> k) t) else Inl KeyError)"

definition delete_way :: "osm_objects \<Rightarrow> way \<Rightarrow> (error + unit) \<times> osm_objects" where
  "delete_way st w =
     (let st1 = st\<lparr>street_tree := filter (\<lambda>e. e \<noteq> (way_id w, box w)) (street_tree st)\<rparr>
      in case avl_remove way_id (way_id w) (way_avl st1) of
           Inl e \<Rightarrow> (Inl e, st1)
         | Inr t \<Rightarrow> (Inr (), st1\<lparr>way_avl := t\<rparr>))"

section \<open>Geometry kernel: \<^verbatim>\<open>geo/geo_utils.py\<close>\<close>

text \<open>
  The calls into pyproj: \<^verbatim>\<open>GEOD.inv(lon1, lat1, lon2, lat2)\<close>, which returns
  \<^verbatim>\<open>(az_f, az_b, distance)\<close> or raises, \<^verbatim>\<open>GEOD.fwd(lon, lat, azimuth, distance)\<close>, the UTM
  projection of the data representation, and the rounding \<^verbatim>\<open>float('%.7f' % x)\<close>.
\<close>

record geo =
  geod_inv :: "real \<Rightarrow> real \<Rightarrow> real \<Rightarrow> real \<Rightarrow> error + real \<times> real \<times> real"
  geod_fwd :: "real \<Rightarrow> real \<Rightarrow> real \<Rightarrow> real \<Rightarrow> real \<times> real \<times> real"
  utm :: "real \<Rightarrow> real \<Rightarrow> real \<times> real"
  fmt7 :: "real \<Rightarrow> real"

definition TOLERANCE :: real where
  "TOLERANCE = 1 / 10 ^ 7"

text \<open>
  The assignment \<^verbatim>\<open>az_f, az_b, distance = 0.0\<close> unpacks its right-hand side into three
  targets. A float is not iterable, so the statement raises \<^verbatim>\<open>TypeError\<close>, whatever
  the float.
\<close>

definition unpack3_float :: "real \<Rightarrow> error + real \<times> real \<times> real" where
  "unpack3_float x = Inl TypeError"

text \<open>
  \<^verbatim>\<open>distance_points\<close>: the handler covers \<^verbatim>\<open>ValueError\<close> only, and what the handler
  raises itself leaves the function.
\<close>

definition distance_points :: "geo \<Rightarrow> node \<Rightarrow> node \<Rightarrow> error + real \<times> real \<times> real" where
  "distance_points g point1 point2 =
     (case geod_inv g (lon point1) (lat point1) (lon point2) (lat point2) of
        Inr r \<Rightarrow> Inr r
      | Inl ValueError \<Rightarrow> unpack3_float 0
      | Inl e \<Rightarrow> Inl e)"

text \<open>
  \<^verbatim>\<open>have_same_coords\<close>; a point that may be \<^verbatim>\<open>None\<close> is an option. The last conjunct
  is the source's \<^verbatim>\<open>abs(point1.lat - point1.lat) <= tolerance\<close>.
\<close>

definition have_same_coords :: "node option \<Rightarrow> node option \<Rightarrow> real \<Rightarrow> bool" where
  "have_same_coords point1 point2 tolerance =
     (case point1 of None \<Rightarrow> False | Some p1 \<Rightarrow>
      case point2 of None \<Rightarrow> False | Some p2 \<Rightarrow>
        \<bar>lon p1 - lon p2\<bar> \<le> tolerance \<and> \<bar>lat p1 - lat p1\<bar> \<le> tolerance)"

text \<open>\<^verbatim>\<open>Node.get_x_utm\<close> and \<^verbatim>\<open>Node.get_y_utm\<close>.\<close>

definition get_x_utm :: "geo \<Rightarrow> node \<Rightarrow> real" where
  "get_x_utm g n = fst (utm g (lon n) (lat n))"

definition get_y_utm :: "geo \<Rightarrow> node \<Rightarrow> real" where
  "get_y_utm g n = snd (utm g (lon n) (lat n))"

text \<open>
  A distance mode is a Python list: one node, or two nodes and a float.
\<close>

datatype melem = MNode int | MFloat real

text \<open>
  The distance part of a \<^verbatim>\<open>GEOD.inv\<close> call wrapped in
  \<^verbatim>\<open>try: ... except ValueError: distance = 0.0\<close>.
\<close>

definition inv_distance_or_zero :: "geo \<Rightarrow> node \<Rightarrow> node \<Rightarrow> error + real" where
  "inv_distance_or_zero g a b =
     (case geod_inv g (lon a) (lat a) (lon b) (lat b) of
        Inr (az_f, az_b, d) \<Rightarrow> Inr d
      | Inl ValueError \<Rightarrow> Inr 0
      | Inl e \<Rightarrow> Inl e)"

text \<open>
  The first part of \<^verbatim>\<open>__distance_point_to_line\<close>: the unit vector of the segment. The
  two divisions by \<^verbatim>\<open>segment_length\<close> sit inside the \<^verbatim>\<open>try\<close>, whose handler covers
  \<^verbatim>\<open>ValueError\<close> only; a float division by zero raises \<^verbatim>\<open>ZeroDivisionError\<close>.
\<close>

definition line_segment_unit :: "geo \<Rightarrow> node \<Rightarrow> node \<Rightarrow> error + real \<times> real" where
  "line_segment_unit g line_start line_end =
     (if \<not> have_same_coords (Some line_start) (Some line_end) TOLERANCE then
        (let line_segment_x = get_x_utm g line_end - get_x_utm g line_start;
             line_segment_y = get_y_utm g line_end - get_y_utm g line_start
         in case geod_inv g (lon line_start) (lat line_start) (lon line_end) (lat line_end) of
              Inr (az_f, az_b, segment_length) \<Rightarrow>
                if segment_length = 0 then Inl ZeroDivisionError
                else Inr (line_segment_x / segment_length, line_segment_y / segment_length)
            | Inl ValueError \<Rightarrow> Inr (0, 0)
            | Inl e \<Rightarrow> Inl e)
      else Inr (0, 0))"

text \<open>\<^verbatim>\<open>__distance_point_to_line\<close>: the result is \<^verbatim>\<open>(distance, mode)\<close>.\<close>

definition distance_point_to_line ::
  "geo \<Rightarrow> node \<Rightarrow> node \<Rightarrow> node \<Rightarrow> error + real \<times> melem list" where
  "distance_point_to_line g line_start line_end point =
     (case line_segment_unit g line_start line_end of
        Inl e \<Rightarrow> Inl e
      | Inr (line_segment_x, line_segment_y) \<Rightarrow>
          (let start_to_point_x = get_x_utm g point - get_x_utm g line_start;
               start_to_point_y = get_y_utm g point - get_y_utm g line_start;
               projection_scalar = start_to_point_x * line_segment_x + start_to_point_y * line_segment_y
           in if projection_scalar < 0 then
                (case inv_distance_or_zero g line_start point of
                   Inl e \<Rightarrow> Inl e
                 | Inr distance \<Rightarrow> Inr (distance, [MNode (node_id line_start)]))
              else
                (let end_to_point_x = get_x_utm g point - get_x_utm g line_end;
                     end_to_point_y = get_y_utm g point - get_y_utm g line_end
                 in case inv_distance_or_zero g line_end point of
                      Inl e \<Rightarrow> Inl e
                    | Inr segment_length \<Rightarrow>
                        (let projection_scalar2 =
                               end_to_point_x * (- line_segment_x) + end_to_point_y * (- line_segment_y)
                         in if projection_scalar2 < 0 then
                              Inr (segment_length, [MNode (node_id line_end)])
                            else
                              Inr (sqrt \<bar>segment_length ^ 2 - projection_scalar2 ^ 2\<bar>,
                                   [MNode (node_id line_start), MNode (node_id line_end),
                                    MFloat projection_scalar])))))"

definition distance_mode_point_line ::
  "geo \<Rightarrow> node \<Rightarrow> node \<Rightarrow> node \<Rightarrow> error + real \<times> melem list" where
  "distance_mode_point_line g line_start line_end point =
     distance_point_to_line g line_start line_end point"

definition distance_point_line :: "geo \<Rightarrow> node \<Rightarrow> node \<Rightarrow> node \<Rightarrow> error + real" where
  "distance_point_line g line_start line_end point =
     (case distance_point_to_line g line_start line_end point of
        Inl e \<Rightarrow> Inl e
      | Inr r \<Rightarrow> Inr (fst r))"

text \<open>
  Reading an attribute through a reference: a reference without an object behaves
  like \<^verbatim>\<open>None\<close>, on which every attribute access raises \<^verbatim>\<open>AttributeError\<close>.
\<close>

definition the_node :: "osm_objects \<Rightarrow> int \<Rightarrow> error + node" where
  "the_node st k = (case avl_get node_id (node_avl st) k of None \<Rightarrow> Inl AttributeError | Some n \<Rightarrow> Inr n)"

definition the_way :: "osm_objects \<Rightarrow> int \<Rightarrow> error + way" where
  "the_way st k = (case avl_get way_id (way_avl st) k of None \<Rightarrow> Inl AttributeError | Some w \<Rightarrow> Inr w)"

text \<open>
  The loop of \<^verbatim>\<open>distance_node_street\<close> over \<^verbatim>\<open>range(len(snodes) - 1)\<close>: the list
  argument is what is left of \<^verbatim>\<open>snodes\<close> from index \<^verbatim>\<open>i\<close> on, the pair is
  \<^verbatim>\<open>(min_dist, min_mode)\<close>.
\<close>

fun segment_scan ::
  "geo \<Rightarrow> osm_objects \<Rightarrow> node \<Rightarrow> int list \<Rightarrow> pyfloat \<times> melem list option \<Rightarrow>
   error + pyfloat \<times> melem list option" where
  "segment_scan g st point (a # b # rest) (min_dist, min_mode) =
     (case the_node st a of Inl e \<Rightarrow> Inl e | Inr na \<Rightarrow>
      case the_node st b of Inl e \<Rightarrow> Inl e | Inr nb \<Rightarrow>
      case distance_mode_point_line g na nb point of Inl e \<Rightarrow> Inl e | Inr (distance, mode) \<Rightarrow>
        segment_scan g st point (b # rest)
          (if flt (Fin distance) min_dist then (Fin distance, Some mode) else (min_dist, min_mode)))"
| "segment_scan g st point snodes acc = Inr acc"

definition distance_node_street ::
  "geo \<Rightarrow> osm_objects \<Rightarrow> node \<Rightarrow> int \<Rightarrow> error + pyfloat \<times> melem list option" where
  "distance_node_street g st point street =
     (case the_way st street of
        Inl e \<Rightarrow> Inl e
      | Inr w \<Rightarrow> segment_scan g st point (nodes w) (PosInf, None))"

text \<open>
  \<^verbatim>\<open>get_nearest_street_node\<close>: the inner loop over the nodes of one street, then the
  outer loop over the streets. The pair is \<^verbatim>\<open>(nearest_node, min_dist)\<close>.
\<close>

fun street_node_scan ::
  "geo \<Rightarrow> osm_objects \<Rightarrow> node \<Rightarrow> int list \<Rightarrow> int option \<times> pyfloat \<Rightarrow> error + int option \<times> pyfloat" where
  "street_node_scan g st point [] acc = Inr acc"
| "street_node_scan g st point (street_node # rest) (nearest_node, min_dist) =
     (case the_node st street_node of Inl e \<Rightarrow> Inl e | Inr sn \<Rightarrow>
      case distance_points g point sn of Inl e \<Rightarrow> Inl e | Inr (az_f, az_b, distance) \<Rightarrow>
        street_node_scan g st point rest
          (if flt (Fin distance) min_dist then (Some street_node, Fin distance)
           else (nearest_node, min_dist)))"

fun nearest_street_node_loop ::
  "geo \<Rightarrow> osm_objects \<Rightarrow> node \<Rightarrow> int list \<Rightarrow> int option \<times> pyfloat \<Rightarrow> error + int option \<times> pyfloat" where
  "nearest_street_node_loop g st point [] acc = Inr acc"
| "nearest_street_node_loop g st point (street # rest) acc =
     (case the_way st street of Inl e \<Rightarrow> Inl e | Inr w \<Rightarrow>
      case street_node_scan g st point (nodes w) acc of Inl e \<Rightarrow> Inl e | Inr acc' \<Rightarrow>
        nearest_street_node_loop g st point rest acc')"

definition get_nearest_street_node ::
  "geo \<Rightarrow> osm_objects \<Rightarrow> node \<Rightarrow> int list \<Rightarrow> error + int option \<times> pyfloat" where
  "get_nearest_street_node g st point streets =
     nearest_street_node_loop g st point streets (None, PosInf)"

text \<open>
  \<^verbatim>\<open>get_nearest_street\<close>: the triple is \<^verbatim>\<open>(nearest_street, min_dist, nearest_mode)\<close>.
\<close>

fun nearest_street_loop ::
  "geo \<Rightarrow> osm_objects \<Rightarrow> node \<Rightarrow> int list \<Rightarrow> int option \<times> pyfloat \<times> melem list option \<Rightarrow>
   error + int option \<times> pyfloat \<times> melem list option" where
  "nearest_street_loop g st point [] acc = Inr acc"
| "nearest_street_loop g st point (street # rest) (nearest_street, min_dist, nearest_mode) =
     (case distance_node_street g st point street of Inl e \<Rightarrow> Inl e | Inr (distance, mode) \<Rightarrow>
        nearest_street_loop g st point rest
          (if flt distance min_dist then (Some street, distance, mode)
           else (nearest_street, min_dist, nearest_mode)))"

definition get_nearest_street ::
  "geo \<Rightarrow> osm_objects \<Rightarrow> node \<Rightarrow> int list \<Rightarrow> error + int option \<times> pyfloat \<times> melem list option" where
  "get_nearest_street g st point streets =
     nearest_street_loop g st point streets (None, PosInf, None)"

text \<open>\<^verbatim>\<open>is_area\<close>: indexing an empty list raises \<^verbatim>\<open>IndexError\<close>.\<close>

definition is_area :: "way \<Rightarrow> error + bool" where
  "is_area w = (if nodeIDs w = [] then Inl IndexError else Inr (hd (nodeIDs w) = last (nodeIDs w)))"

text \<open>\<^verbatim>\<open>is_building\<close>; the argument may be \<^verbatim>\<open>None\<close>.\<close>

definition is_building :: "way option \<Rightarrow> error + bool" where
  "is_building building =
     (case building of
        None \<Rightarrow> Inr False
      | Some b \<Rightarrow>
          (case is_area b of
             Inl e \<Rightarrow> Inl e
           | Inr a \<Rightarrow> Inr (a \<and> map_of (w_tags b) ''building'' = Some ''yes'')))"

text \<open>
  The loop of \<^verbatim>\<open>is_inside_polygon\<close> over \<^verbatim>\<open>range(n + 1)\<close>. The accumulator is
  \<^verbatim>\<open>(p1_x, p1_y, intersections, xinters)\<close>; \<^verbatim>\<open>xinters\<close> is unbound until its first
  assignment, and reading it unbound raises \<^verbatim>\<open>UnboundLocalError\<close>.
\<close>

fun polygon_loop ::
  "geo \<Rightarrow> osm_objects \<Rightarrow> node \<Rightarrow> int list \<Rightarrow> nat list \<Rightarrow> real \<times> real \<times> nat \<times> real option \<Rightarrow>
   error + real \<times> real \<times> nat \<times> real option" where
  "polygon_loop g st nd polygon [] acc = Inr acc"
| "polygon_loop g st nd polygon (i # rest) (p1_x, p1_y, intersections, xinters) =
     (case the_node st (polygon ! (i mod length polygon)) of
        Inl e \<Rightarrow> Inl e
      | Inr p2 \<Rightarrow>
          (let p2_x = get_x_utm g p2; p2_y = get_y_utm g p2
           in if get_y_utm g nd > min p1_y p2_y \<and> get_y_utm g nd \<le> max p1_y p2_y
                 \<and> get_x_utm g nd \<le> max p1_x p2_x then
                (let xinters' =
                       (if p1_y \<noteq> p2_y then
                          Some ((get_y_utm g nd - p1_y) * (p2_x - p1_x) / (p2_y - p1_y) + p1_x)
                        else xinters)
                 in if p1_x = p2_x then
                      polygon_loop g st nd polygon rest (p2_x, p2_y, intersections + 1, xinters')
                    else
                      (case xinters' of
                         None \<Rightarrow> Inl UnboundLocalError
                       | Some xi \<Rightarrow>
                           polygon_loop g st nd polygon rest
                             (p2_x, p2_y,
                              (if get_x_utm g nd \<le> xi then intersections + 1 else intersections),
                              xinters')))
              else polygon_loop g st nd polygon rest (p2_x, p2_y, intersections, xinters)))"

definition is_inside_polygon :: "geo \<Rightarrow> osm_objects \<Rightarrow> node \<Rightarrow> way \<Rightarrow> error + bool" where
  "is_inside_polygon g st nd w =
     (case is_area w of
        Inl e \<Rightarrow> Inl e
      | Inr area \<Rightarrow>
          if \<not> area then Inr False
          else
            (let polygon = nodes w; n = length polygon
             in if polygon = [] then Inl IndexError
                else
                  (case the_node st (polygon ! 0) of
                     Inl e \<Rightarrow> Inl e
                   | Inr p0 \<Rightarrow>
                       (case polygon_loop g st nd polygon [0 ..< n + 1]
                               (get_x_utm g p0, get_y_utm g p0, 0, None) of
                          Inl e \<Rightarrow> Inl e
                        | Inr (p1_x, p1_y, intersections, xinters) \<Rightarrow>
                            Inr (intersections mod 2 \<noteq> 0)))))"

text \<open>
  \<^verbatim>\<open>get_building_entrance\<close>. The Python result is a set of node objects, or \<^verbatim>\<open>None\<close>;
  the set is the duplicate-free list of its members in the order of the way (the
  order in which Python iterates over a set is not fixed by the language).
\<close>

fun entrance_scan :: "osm_objects \<Rightarrow> int list \<Rightarrow> int list \<Rightarrow> error + int list" where
  "entrance_scan st [] entrance = Inr entrance"
| "entrance_scan st (k # rest) entrance =
     (case the_node st k of
        Inl e \<Rightarrow> Inl e
      | Inr n \<Rightarrow>
          entrance_scan st rest
            (if map_of (n_tags n) ''building'' = Some ''entrance'' \<and> k \<notin> set entrance
             then entrance @ [k] else entrance))"

definition get_building_entrance :: "osm_objects \<Rightarrow> way option \<Rightarrow> error + int list option" where
  "get_building_entrance st building =
     (case is_building building of
        Inl e \<Rightarrow> Inl e
      | Inr b \<Rightarrow>
          (case building of
             None \<Rightarrow> Inr None
           | Some w \<Rightarrow>
               if b then
                 (case entrance_scan st (nodes w) [] of
                    Inl e \<Rightarrow> Inl e
                  | Inr entrance \<Rightarrow> Inr (Some entrance))
               else Inr None))"

section \<open>Connecting nodes: \<^verbatim>\<open>geo/geo_utils.py\<close>\<close>

text \<open>
  \<^verbatim>\<open>connect_by_node(osm_object, node, street_node)\<close>. The two nodes are references; the
  result is the reference to the new way. The partition ids are read after the way has
  been created, from the objects as they are then.
\<close>

definition connect_by_node :: "osm_objects \<Rightarrow> int \<Rightarrow> int \<Rightarrow> (error + int) \<times> osm_objects" where
  "connect_by_node st nd street_node =
     (case the_node st nd of Inl e \<Rightarrow> (Inl e, st) | Inr n \<Rightarrow>
      case the_node st street_node of Inl e \<Rightarrow> (Inl e, st) | Inr sn \<Rightarrow>
      case append_new_street st [(''highway'', ''footway'')] [node_id n, node_id sn]
             [(''visible'', ''true'')] of
        (Inl e, st1) \<Rightarrow> (Inl e, st1)
      | (Inr new_street, st1) \<Rightarrow>
          (case the_node st1 nd of Inl e \<Rightarrow> (Inl e, st1) | Inr n1 \<Rightarrow>
             if n_partition_id n1 > 0 then
               (Inr new_street,
                upd_way new_street (\<lambda>w. w\<lparr>w_partition_id := n_partition_id n1\<rparr>) st1)
             else
               (case the_node st1 street_node of Inl e \<Rightarrow> (Inl e, st1) | Inr sn1 \<Rightarrow>
                  (Inr new_street,
                   upd_node nd (\<lambda>x. x\<lparr>n_partition_id := n_partition_id sn1\<rparr>)
                     (upd_way new_street (\<lambda>w. w\<lparr>w_partition_id := n_partition_id sn1\<rparr>) st1)))))"

text \<open>
  Arguments of a call as Python passes them, by position: the data representation, or
  an element of a distance mode. A call of \<^verbatim>\<open>connect_by_node\<close> binds exactly three
  positional arguments; with any other number Python raises \<^verbatim>\<open>TypeError\<close> before the
  body runs. With three arguments of the wrong kind the body raises \<^verbatim>\<open>AttributeError\<close>
  before it changes anything.
\<close>

datatype pyarg = ArgOsm | ArgElem melem

definition call_connect_by_node :: "pyarg list \<Rightarrow> osm_objects \<Rightarrow> (error + int) \<times> osm_objects" where
  "call_connect_by_node args st =
     (case args of
        [a1, a2, a3] \<Rightarrow>
          (case (a1, a2, a3) of
             (ArgOsm, ArgElem (MNode nd), ArgElem (MNode street_node)) \<Rightarrow>
               connect_by_node st nd street_node
           | _ \<Rightarrow> (Inl AttributeError, st))
      | _ \<Rightarrow> (Inl TypeError, st))"

text \<open>
  List operations of Python used by \<^verbatim>\<open>Way.insert_node\<close>: \<^verbatim>\<open>l.index(x, start)\<close> and
  \<^verbatim>\<open>l.remove(x)\<close> raise \<^verbatim>\<open>ValueError\<close> when \<^verbatim>\<open>x\<close> is not found, \<^verbatim>\<open>l.insert(i, x)\<close> puts
  \<^verbatim>\<open>x\<close> before position \<^verbatim>\<open>i\<close>.
\<close>

definition list_index :: "'a list \<Rightarrow> 'a \<Rightarrow> nat \<Rightarrow> error + nat" where
  "list_index xs x start =
     (case find (\<lambda>i. xs ! i = x) [start ..< length xs] of
        None \<Rightarrow> Inl ValueError
      | Some i \<Rightarrow> Inr i)"

definition list_remove :: "'a \<Rightarrow> 'a list \<Rightarrow> error + 'a list" where
  "list_remove x xs = (if x \<in> set xs then Inr (remove1 x xs) else Inl ValueError)"

definition list_insert :: "nat \<Rightarrow> 'a \<Rightarrow> 'a list \<Rightarrow> 'a list" where
  "list_insert i x xs = take i xs @ [x] @ drop i xs"

text \<open>
  The second half of \<^verbatim>\<open>Way.insert_node\<close>, which recalculates the neighbours; each
  \<^verbatim>\<open>remove\<close> can raise, and what was changed before stays changed.
\<close>

definition relink_neighbours :: "osm_objects \<Rightarrow> int \<Rightarrow> int \<Rightarrow> int \<Rightarrow> (error + unit) \<times> osm_objects" where
  "relink_neighbours st segment_start segment_end nd =
     (case the_node st segment_start of Inl e \<Rightarrow> (Inl e, st) | Inr s \<Rightarrow>
      case list_remove segment_end (neighbours s) of Inl e \<Rightarrow> (Inl e, st) | Inr ns \<Rightarrow>
        (let st1 = upd_node segment_start (\<lambda>n. n\<lparr>neighbours := ns @ [nd]\<rparr>) st
         in case the_node st1 segment_end of Inl e \<Rightarrow> (Inl e, st1) | Inr e1 \<Rightarrow>
            case list_remove segment_start (neighbours e1) of Inl e \<Rightarrow> (Inl e, st1) | Inr ne \<Rightarrow>
              (let st2 = upd_node segment_end (\<lambda>n. n\<lparr>neighbours := ne @ [nd]\<rparr>) st1
               in case the_node st2 nd of Inl e \<Rightarrow> (Inl e, st2) | Inr n0 \<Rightarrow>
                    (Inr (),
                     upd_node nd (\<lambda>n. n\<lparr>neighbours := neighbours n @ [segment_start, segment_end]\<rparr>)
                       st2))))"

text \<open>\<^verbatim>\<open>Way.insert_node(segment_start, segment_end, node)\<close> on the way \<^verbatim>\<open>street\<close>.\<close>

definition insert_node :: "osm_objects \<Rightarrow> int \<Rightarrow> int \<Rightarrow> int \<Rightarrow> int \<Rightarrow> (error + unit) \<times> osm_objects" where
  "insert_node st street segment_start segment_end nd =
     (case the_way st street of Inl e \<Rightarrow> (Inl e, st) | Inr w \<Rightarrow>
      case list_index (nodeIDs w) segment_start 0 of Inl e \<Rightarrow> (Inl e, st) | Inr index_start \<Rightarrow>
      case list_index (nodeIDs w) segment_end 1 of Inl e \<Rightarrow> (Inl e, st) | Inr index_end \<Rightarrow>
      case list_index (nodes w) segment_start 0 of Inl e \<Rightarrow> (Inl e, st) | Inr object_start \<Rightarrow>
        if index_start \<noteq> object_start then (Inl AssertionError, st)
        else
          (case list_index (nodes w) segment_end 1 of Inl e \<Rightarrow> (Inl e, st) | Inr object_end \<Rightarrow>
             if \<not> (index_end = object_end \<and> int index_start = int index_end - 1) then
               (Inl AssertionError, st)
             else
               relink_neighbours
                 (upd_way street
                    (\<lambda>x. x\<lparr>nodeIDs := list_insert index_end nd (nodeIDs x),
                           nodes := list_insert index_end nd (nodes x)\<rparr>) st)
                 segment_start segment_end nd))"

text \<open>
  \<^verbatim>\<open>connect_by_projection(osm_object, node, street, mode)\<close>. \<^verbatim>\<open>street\<close> and \<^verbatim>\<open>mode\<close>
  may be \<^verbatim>\<open>None\<close>. The result is \<^verbatim>\<open>False\<close> (\<open>None\<close> here) or the new way.
  In the branch \<^verbatim>\<open>len(mode) == 1\<close> the source calls
  \<^verbatim>\<open>connect_by_node(node, mode[0])\<close>, with two arguments; in the other branch it calls
  \<^verbatim>\<open>connect_by_node(osm_object, node, new_node)\<close>.
  The other branch unpacks \<^verbatim>\<open>mode\<close> into three names, which raises \<^verbatim>\<open>ValueError\<close>
  for another length.
\<close>

definition connect_by_projection ::
  "geo \<Rightarrow> osm_objects \<Rightarrow> int \<Rightarrow> int option \<Rightarrow> melem list option \<Rightarrow>
   (error + int option) \<times> osm_objects" where
  "connect_by_projection g st nd street mode =
     (case street of None \<Rightarrow> (Inr None, st) | Some str \<Rightarrow>
      case mode of None \<Rightarrow> (Inr None, st) | Some m \<Rightarrow>
        if length m = 1 then
          (case call_connect_by_node [ArgElem (MNode nd), ArgElem (m ! 0)] st of
             (Inl e, st') \<Rightarrow> (Inl e, st')
           | (Inr c, st') \<Rightarrow> (Inr (Some c), st'))
        else
          (case m of
             [MNode start_node, MNode end_node, MFloat projection_length] \<Rightarrow>
               (case the_node st start_node of Inl e \<Rightarrow> (Inl e, st) | Inr s \<Rightarrow>
                case the_node st end_node of Inl e \<Rightarrow> (Inl e, st) | Inr en \<Rightarrow>
                case geod_inv g (lon s) (lat s) (lon en) (lat en) of
                  Inl e \<Rightarrow> (Inl e, st)
                | Inr (azimuth_f, az_b, d) \<Rightarrow>
                    (case geod_fwd g (lon s) (lat s) azimuth_f projection_length of
                       (new_lon, new_lat, az_b') \<Rightarrow>
                         (case insert_new_node st (fmt7 g new_lat) (fmt7 g new_lon) []
                                 [(''visible'', ''true'')] of
                            (Inl e, st1) \<Rightarrow> (Inl e, st1)
                          | (Inr new_node, st1) \<Rightarrow>
                              (case the_way st1 str of Inl e \<Rightarrow> (Inl e, st1) | Inr w \<Rightarrow>
                                 (let st2 = upd_node new_node
                                              (\<lambda>n. n\<lparr>n_partition_id := w_partition_id w\<rparr>) st1
                                  in case insert_node st2 str start_node end_node new_node of
                                       (Inl e, st3) \<Rightarrow> (Inl e, st3)
                                     | (Inr u, st3) \<Rightarrow>
                                         (case call_connect_by_node
                                                 [ArgOsm, ArgElem (MNode nd), ArgElem (MNode new_node)] st3 of
                                            (Inl e, st4) \<Rightarrow> (Inl e, st4)
                                          | (Inr c, st4) \<Rightarrow> (Inr (Some c), st4)))))))
           | [MNode start_node, MNode end_node, MNode x] \<Rightarrow> (Inl TypeError, st)
           | [a, b, c] \<Rightarrow> (Inl AttributeError, st)
           | _ \<Rightarrow> (Inl ValueError, st)))"

section \<open>POI engine: \<^verbatim>\<open>app/poi.py\<close>\<close>

text \<open>The truth value of \<^verbatim>\<open>tags.get(key)\<close>: \<^verbatim>\<open>None\<close> and the empty string are false.\<close>

definition truthy :: "string option \<Rightarrow> bool" where
  "truthy v = (case v of None \<Rightarrow> False | Some s \<Rightarrow> s \<noteq> [])"

text \<open>
  \<^verbatim>\<open>Poi.get_street_by_name\<close>: \<^verbatim>\<open>None\<close> for an empty name, else the streets whose tag
  \<^verbatim>\<open>name\<close> is the given one, in the order of \<^verbatim>\<open>streets\<close>.
\<close>

fun street_name_scan :: "osm_objects \<Rightarrow> string \<Rightarrow> int list \<Rightarrow> int list \<Rightarrow> error + int list" where
  "street_name_scan st name [] street_by_name = Inr street_by_name"
| "street_name_scan st name (street # rest) street_by_name =
     (case the_way st street of
        Inl e \<Rightarrow> Inl e
      | Inr w \<Rightarrow>
          street_name_scan st name rest
            (if map_of (w_tags w) ''name'' = Some name then street_by_name @ [street]
             else street_by_name))"

definition get_street_by_name :: "osm_objects \<Rightarrow> string \<Rightarrow> int list \<Rightarrow> error + int list option" where
  "get_street_by_name st name streets =
     (if name = [] then Inr None
      else (case street_name_scan st name streets [] of
              Inl e \<Rightarrow> Inl e
            | Inr street_by_name \<Rightarrow> Inr (Some street_by_name)))"

text \<open>
  \<^verbatim>\<open>Poi.connect_with_nearest_street\<close>. The thresholds are Python ints. The result is
  \<^verbatim>\<open>False\<close> (\<open>None\<close> here) or the new way. \<^verbatim>\<open>len(nearest_mode)\<close> raises \<^verbatim>\<open>TypeError\<close>
  when no street yielded a mode.
\<close>

definition connect_with_nearest_street ::
  "geo \<Rightarrow> osm_objects \<Rightarrow> int \<Rightarrow> int list \<Rightarrow> int \<Rightarrow> (error + int option) \<times> osm_objects" where
  "connect_with_nearest_street g st poi_node streets projection_threshold =
     (if streets = [] then (Inr None, st)
      else
        (case the_node st poi_node of Inl e \<Rightarrow> (Inl e, st) | Inr p \<Rightarrow>
         case get_nearest_street g st p streets of
           Inl e \<Rightarrow> (Inl e, st)
         | Inr (nearest_street, street_distance, nearest_mode) \<Rightarrow>
             (case nearest_mode of
                None \<Rightarrow> (Inl TypeError, st)
              | Some m \<Rightarrow>
                  if length m = 1 then
                    (case call_connect_by_node [ArgOsm, ArgElem (MNode poi_node), ArgElem (m ! 0)] st of
                       (Inl e, st') \<Rightarrow> (Inl e, st')
                     | (Inr c, st') \<Rightarrow> (Inr (Some c), st'))
                  else
                    (case nearest_street of
                       None \<Rightarrow> (Inl AttributeError, st)
                     | Some ns \<Rightarrow>
                         (case get_nearest_street_node g st p [ns] of
                            Inl e \<Rightarrow> (Inl e, st)
                          | Inr (nearest_node, node_distance) \<Rightarrow>
                              if flt (fsub node_distance street_distance)
                                     (Fin (of_int projection_threshold)) then
                                (case nearest_node of
                                   None \<Rightarrow> (Inl AttributeError, st)
                                 | Some nn \<Rightarrow>
                                     (case connect_by_node st poi_node nn of
                                        (Inl e, st') \<Rightarrow> (Inl e, st')
                                      | (Inr c, st') \<Rightarrow> (Inr (Some c), st')))
                              else connect_by_projection g st poi_node nearest_street nearest_mode)))))"

text \<open>\<^verbatim>\<open>Poi.connect_by_address\<close>.\<close>

definition connect_by_address ::
  "geo \<Rightarrow> osm_objects \<Rightarrow> int \<Rightarrow> string \<Rightarrow> int list \<Rightarrow> int \<Rightarrow> int \<Rightarrow>
   (error + int option) \<times> osm_objects" where
  "connect_by_address g st poi_node address streets projection_threshold address_threshold =
     (case get_street_by_name st address streets of
        Inl e \<Rightarrow> (Inl e, st)
      | Inr named \<Rightarrow>
          (case named of
             None \<Rightarrow> connect_with_nearest_street g st poi_node streets projection_threshold
           | Some named_streets \<Rightarrow>
               if named_streets \<noteq> [] then
                 (case the_node st poi_node of Inl e \<Rightarrow> (Inl e, st) | Inr p \<Rightarrow>
                  case get_nearest_street g st p named_streets of
                    Inl e \<Rightarrow> (Inl e, st)
                  | Inr (address_street, address_distance, address_mode) \<Rightarrow>
                      (case get_nearest_street g st p streets of
                         Inl e \<Rightarrow> (Inl e, st)
                       | Inr (nearest_street, nearest_distance, nearest_mode) \<Rightarrow>
                           if flt (fsub address_distance nearest_distance)
                                  (Fin (of_int address_threshold)) then
                             connect_with_nearest_street g st poi_node named_streets projection_threshold
                           else
                             connect_with_nearest_street g st poi_node streets projection_threshold))
               else connect_with_nearest_street g st poi_node streets projection_threshold))"

text \<open>
  The loop of \<^verbatim>\<open>Poi.connect_by_building\<close> over the entrances of the building; the
  accumulator \<open>conn\<close> is \<^verbatim>\<open>connected\<close>.
\<close>

fun entrance_loop ::
  "geo \<Rightarrow> int \<Rightarrow> string option \<Rightarrow> string option \<Rightarrow> int list \<Rightarrow> int \<Rightarrow> int \<Rightarrow>
   int list \<Rightarrow> int option \<Rightarrow> osm_objects \<Rightarrow> (error + int option) \<times> osm_objects" where
  "entrance_loop g poi_node poi_address building_address streets p_thr a_thr [] conn st =
     (Inr conn, st)"
| "entrance_loop g poi_node poi_address building_address streets p_thr a_thr (entrance # rest) conn st =
     (case connect_by_node st poi_node entrance of
        (Inl e, st1) \<Rightarrow> (Inl e, st1)
      | (Inr c, st1) \<Rightarrow>
          (case the_node st1 entrance of Inl e \<Rightarrow> (Inl e, st1) | Inr en \<Rightarrow>
             (let entrance_address = map_of (n_tags en) ''addr:street'';
                  r = (if truthy entrance_address then
                         connect_by_address g st1 entrance (the entrance_address) streets p_thr a_thr
                       else if truthy poi_address then
                         connect_by_address g st1 entrance (the poi_address) streets p_thr a_thr
                       else if truthy building_address then
                         connect_by_address g st1 entrance (the building_address) streets p_thr a_thr
                       else connect_with_nearest_street g st1 entrance streets p_thr)
              in case r of
                   (Inl e, st2) \<Rightarrow> (Inl e, st2)
                 | (Inr conn', st2) \<Rightarrow>
                     entrance_loop g poi_node poi_address building_address streets p_thr a_thr rest
                       conn' st2)))"

text \<open>
  \<^verbatim>\<open>Poi.connect_by_building\<close>; \<^verbatim>\<open>building\<close> is the reference to the nearest building or
  \<^verbatim>\<open>None\<close>. The test \<^verbatim>\<open>is_building(building) and is_inside_polygon(poi_node, building)\<close>
  evaluates its second operand only when the first is true.
\<close>

definition connect_by_building ::
  "geo \<Rightarrow> osm_objects \<Rightarrow> int \<Rightarrow> int option \<Rightarrow> int list \<Rightarrow> int \<Rightarrow> int \<Rightarrow>
   (error + int option) \<times> osm_objects" where
  "connect_by_building g st poi_node building streets projection_threshold address_threshold =
     (let bw = (case building of None \<Rightarrow> None | Some b \<Rightarrow> avl_get way_id (way_avl st) b)
      in case is_building bw of
           Inl e \<Rightarrow> (Inl e, st)
         | Inr isb \<Rightarrow>
             if \<not> isb then (Inr None, st)
             else
               (case bw of None \<Rightarrow> (Inr None, st) | Some w \<Rightarrow>
                case the_node st poi_node of Inl e \<Rightarrow> (Inl e, st) | Inr p \<Rightarrow>
                case is_inside_polygon g st p w of
                  Inl e \<Rightarrow> (Inl e, st)
                | Inr inside \<Rightarrow>
                    if \<not> inside then (Inr None, st)
                    else
                      (let building_address = map_of (w_tags w) ''addr:street'';
                           poi_address = map_of (n_tags p) ''addr:street''
                       in case get_building_entrance st bw of
                            Inl e \<Rightarrow> (Inl e, st)
                          | Inr building_entrance \<Rightarrow>
                              if building_entrance \<noteq> None \<and> building_entrance \<noteq> Some [] then
                                entrance_loop g poi_node poi_address building_address streets
                                  projection_threshold address_threshold
                                  (the building_entrance) None st
                              else if truthy poi_address then
                                connect_by_address g st poi_node (the poi_address) streets
                                  projection_threshold address_threshold
                              else if truthy building_address then
                                connect_by_address g st poi_node (the building_address) streets
                                  projection_threshold address_threshold
                              else
                                connect_with_nearest_street g st poi_node streets
                                  projection_threshold)))"

text \<open>The POI states of a node.\<close>

definition POI_SELECTED :: int where
  "POI_SELECTED = 1"

definition POI_CONNECTED :: int where
  "POI_CONNECTED = 2"

definition POI_NOT_CONNECTED :: int where
  "POI_NOT_CONNECTED = 4"

text \<open>
  \<^verbatim>\<open>Node.set_poi\<close>, which also adds the node to the set of points of interest of the data
  representation.
\<close>

definition set_poi :: "int \<Rightarrow> int \<Rightarrow> osm_objects \<Rightarrow> osm_objects" where
  "set_poi nd state st = (upd_node nd (\<lambda>n. n\<lparr>n_poi := state\<rparr>) st)\<lparr>poi := insert nd (poi st)\<rparr>"

text \<open>
  \<^verbatim>\<open>Poi.distance_poi_building\<close>: the loop over \<^verbatim>\<open>range(len(bnodes) - 1)\<close>, as in
  \<^verbatim>\<open>distance_node_street\<close>.
\<close>

fun building_scan :: "geo \<Rightarrow> osm_objects \<Rightarrow> node \<Rightarrow> int list \<Rightarrow> pyfloat \<Rightarrow> error + pyfloat" where
  "building_scan g st point (a # b # rest) min_dist =
     (case the_node st a of Inl e \<Rightarrow> Inl e | Inr na \<Rightarrow>
      case the_node st b of Inl e \<Rightarrow> Inl e | Inr nb \<Rightarrow>
      case distance_point_line g na nb point of Inl e \<Rightarrow> Inl e | Inr distance \<Rightarrow>
        building_scan g st point (b # rest)
          (if flt (Fin distance) min_dist then Fin distance else min_dist))"
| "building_scan g st point bnodes min_dist = Inr min_dist"

definition distance_poi_building :: "geo \<Rightarrow> osm_objects \<Rightarrow> node \<Rightarrow> int \<Rightarrow> error + pyfloat" where
  "distance_poi_building g st point building =
     (case the_way st building of
        Inl e \<Rightarrow> Inl e
      | Inr w \<Rightarrow> building_scan g st point (nodes w) PosInf)"

text \<open>\<^verbatim>\<open>Poi.get_nearest_building\<close>: the pair is \<^verbatim>\<open>(nearest_building, min_dist)\<close>.\<close>

fun nearest_building_loop ::
  "geo \<Rightarrow> osm_objects \<Rightarrow> node \<Rightarrow> int list \<Rightarrow> int option \<times> pyfloat \<Rightarrow> error + int option \<times> pyfloat" where
  "nearest_building_loop g st point [] acc = Inr acc"
| "nearest_building_loop g st point (building # rest) (nearest_building, min_dist) =
     (case distance_poi_building g st point building of
        Inl e \<Rightarrow> Inl e
      | Inr distance \<Rightarrow>
          nearest_building_loop g st point rest
            (if flt distance min_dist then (Some building, distance)
             else (nearest_building, min_dist)))"

definition get_nearest_building ::
  "geo \<Rightarrow> osm_objects \<Rightarrow> node \<Rightarrow> int list \<Rightarrow> error + int option \<times> pyfloat" where
  "get_nearest_building g st point buildings =
     nearest_building_loop g st point buildings (None, PosInf)"

text \<open>
  The body of the loop of \<^verbatim>\<open>Poi.connect_poi\<close> for one selected node. The streets and the
  buildings within the search distance come from the spatial index and are parameters.
  \<^verbatim>\<open>connected\<close> is \<^verbatim>\<open>False\<close> (\<open>None\<close> here) or the new way; each later attempt runs
  only while it is still \<^verbatim>\<open>False\<close>.
\<close>

definition connect_poi_node ::
  "geo \<Rightarrow> osm_objects \<Rightarrow> int \<Rightarrow> int list \<Rightarrow> int list \<Rightarrow> int \<Rightarrow> int \<Rightarrow> (error + unit) \<times> osm_objects" where
  "connect_poi_node g st poi_node streets buildings projection_threshold address_threshold =
     (case the_node st poi_node of Inl e \<Rightarrow> (Inl e, st) | Inr p \<Rightarrow>
        if neighbours p \<noteq> [] then (Inr (), set_poi poi_node POI_CONNECTED st)
        else if streets = [] then (Inr (), set_poi poi_node POI_NOT_CONNECTED st)
        else
          (let poi_address = map_of (n_tags p) ''addr:street''
           in case get_nearest_building g st p buildings of
                Inl e \<Rightarrow> (Inl e, st)
              | Inr (nearest_building, building_distance) \<Rightarrow>
           (case get_nearest_street_node g st p streets of
                Inl e \<Rightarrow> (Inl e, st)
              | Inr (nearest_node, node_distance) \<Rightarrow>
           (case (case nearest_node of
                    None \<Rightarrow> (Inr None, st)
                  | Some nn \<Rightarrow>
                      if have_same_coords (Some p) (avl_get node_id (node_avl st) nn) TOLERANCE then
                        (case connect_by_node st poi_node nn of
                           (Inl e, s) \<Rightarrow> (Inl e, s)
                         | (Inr c, s) \<Rightarrow> (Inr (Some c), s))
                      else (Inr None, st)) of
                (Inl e, st1) \<Rightarrow> (Inl e, st1)
              | (Inr connected1, st1) \<Rightarrow>
           (case (if connected1 = None then
                    connect_by_building g st1 poi_node nearest_building streets
                      projection_threshold address_threshold
                  else (Inr connected1, st1)) of
                (Inl e, st2) \<Rightarrow> (Inl e, st2)
              | (Inr connected2, st2) \<Rightarrow>
           (case (if connected2 = None \<and> truthy poi_address then
                    connect_by_address g st2 poi_node (the poi_address) streets
                      projection_threshold address_threshold
                  else (Inr connected2, st2)) of
                (Inl e, st3) \<Rightarrow> (Inl e, st3)
              | (Inr connected3, st3) \<Rightarrow>
           (case (if connected3 = None then
                    connect_with_nearest_street g st3 poi_node streets projection_threshold
                  else (Inr connected3, st3)) of
                (Inl e, st4) \<Rightarrow> (Inl e, st4)
              | (Inr connected4, st4) \<Rightarrow>
                  (Inr (),
                   set_poi poi_node
                     (if connected4 \<noteq> None then POI_CONNECTED else POI_NOT_CONNECTED) st4))))))))"

section \<open>Partition engine: \<^verbatim>\<open>app/partition.py\<close>\<close>

text \<open>\<^verbatim>\<open>merge_boxes\<close> of \<^verbatim>\<open>geo/geo_utils.py\<close>.\<close>

definition merge_boxes :: "box \<Rightarrow> box \<Rightarrow> box" where
  "merge_boxes box1 box2 =
     (case box1 of (box1_min_x, box1_min_y, box1_max_x, box1_max_y) \<Rightarrow>
      case box2 of (box2_min_x, box2_min_y, box2_max_x, box2_max_y) \<Rightarrow>
        (fmin box1_min_x box2_min_x, fmin box1_min_y box2_min_y,
         fmax box1_max_x box2_max_x, fmax box1_max_y box2_max_y))"

text \<open>
  Class \<^verbatim>\<open>Partition\<close>: the sets hold references to nodes and ways; the box is \<^verbatim>\<open>None\<close>
  until the first street is added.
\<close>

record partition =
  p_partition_id :: int
  p_nodes :: "int set"
  p_streets :: "int set"
  p_box :: "box option"

definition Partition :: "int \<Rightarrow> partition" where
  "Partition pid = \<lparr>p_partition_id = pid, p_nodes = {}, p_streets = {}, p_box = None\<rparr>"

definition add_street :: "way \<Rightarrow> partition \<Rightarrow> partition" where
  "add_street street p =
     p\<lparr>p_box := (case p_box p of
                   Some b \<Rightarrow> Some (merge_boxes b (box street))
                 | None \<Rightarrow> Some (box street)),
       p_streets := insert (way_id street) (p_streets p)\<rparr>"

definition add_node :: "int \<Rightarrow> partition \<Rightarrow> partition" where
  "add_node nd p = p\<lparr>p_nodes := insert nd (p_nodes p)\<rparr>"

text \<open>
  The part of a \<^verbatim>\<open>PartitionFinder\<close> that labelling uses: the dictionary
  \<^verbatim>\<open>self.__partitions\<close> and the counter \<^verbatim>\<open>self.__partition_id\<close>.
\<close>

record finder =
  partitions :: "(int \<times> partition) list"
  partition_id :: int

definition upd_partition :: "int \<Rightarrow> (partition \<Rightarrow> partition) \<Rightarrow> finder \<Rightarrow> finder" where
  "upd_partition k f pf =
     pf\<lparr>partitions := map (\<lambda>(i, p). if i = k then (i, f p) else (i, p)) (partitions pf)\<rparr>"

text \<open>
  The \<^verbatim>\<open>for\<close> loop over the neighbours of a filtered node: only neighbours that are
  not filtered are appended to the queue.
\<close>

fun unfiltered_neighbours :: "osm_objects \<Rightarrow> int list \<Rightarrow> int list \<Rightarrow> error + int list" where
  "unfiltered_neighbours st [] node_queue = Inr node_queue"
| "unfiltered_neighbours st (neighbour # rest) node_queue =
     (case the_node st neighbour of
        Inl e \<Rightarrow> Inl e
      | Inr nb \<Rightarrow>
          unfiltered_neighbours st rest
            (if \<not> n_filtered nb then node_queue @ [neighbour] else node_queue))"

text \<open>
  The loop \<^verbatim>\<open>while node_queue:\<close> of \<^verbatim>\<open>breadth_first_search\<close>, for the current partition
  id \<open>pid\<close>. \<open>None\<close> is "does not return".
\<close>

partial_function (option) bfs_queue ::
  "int \<Rightarrow> int list \<Rightarrow> finder \<times> osm_objects \<Rightarrow> ((error + unit) \<times> finder \<times> osm_objects) option" where
  "bfs_queue pid node_queue s =
     (case node_queue of
        [] \<Rightarrow> Some (Inr (), s)
      | nd # rest \<Rightarrow>
          (case the_node (snd s) nd of
             Inl e \<Rightarrow> Some (Inl e, s)
           | Inr n \<Rightarrow>
               if n_partition_id n > 0 then bfs_queue pid rest s
               else if n_partition_id n = - 1 \<and> n_filtered n then
                 (case unfiltered_neighbours
                         (upd_node nd (\<lambda>x. x\<lparr>n_partition_id := pid\<rparr>) (snd s)) (neighbours n) rest of
                    Inl e \<Rightarrow> Some (Inl e, fst s, upd_node nd (\<lambda>x. x\<lparr>n_partition_id := pid\<rparr>) (snd s))
                  | Inr node_queue' \<Rightarrow>
                      bfs_queue pid node_queue'
                        (fst s, upd_node nd (\<lambda>x. x\<lparr>n_partition_id := pid\<rparr>) (snd s)))
               else if n_filtered n then bfs_queue pid rest s
               else
                 (case map_of (partitions (fst s)) pid of
                    None \<Rightarrow>
                      Some (Inl AttributeError, fst s,
                            upd_node nd (\<lambda>x. x\<lparr>n_partition_id := pid\<rparr>) (snd s))
                  | Some p \<Rightarrow>
                      bfs_queue pid (rest @ neighbours n)
                        (upd_partition pid (add_node nd) (fst s),
                         upd_node nd (\<lambda>x. x\<lparr>n_partition_id := pid\<rparr>) (snd s)))))"

text \<open>
  \<^verbatim>\<open>PartitionFinder.breadth_first_search(streets)\<close>: the loop over the streets.
  \<^verbatim>\<open>self.__partitions.setdefault\<close> keeps an entry that is already there.
\<close>

fun breadth_first_search ::
  "int list \<Rightarrow> finder \<times> osm_objects \<Rightarrow> ((error + unit) \<times> finder \<times> osm_objects) option" where
  "breadth_first_search [] s = Some (Inr (), s)"
| "breadth_first_search (street # rest) (pf, st) =
     (case the_way st street of
        Inl e \<Rightarrow> Some (Inl e, pf, st)
      | Inr w \<Rightarrow>
          if w_filtered w then breadth_first_search rest (pf, st)
          else if nodes w = [] then Some (Inl IndexError, pf, st)
          else
            (case the_node st (hd (nodes w)) of
               Inl e \<Rightarrow> Some (Inl e, pf, st)
             | Inr n0 \<Rightarrow>
                 if n_partition_id n0 > 0 then
                   (let st1 = upd_way street (\<lambda>x. x\<lparr>w_partition_id := n_partition_id n0\<rparr>) st
                    in case map_of (partitions pf) (n_partition_id n0) of
                         None \<Rightarrow> Some (Inl AttributeError, pf, st1)
                       | Some p \<Rightarrow>
                           breadth_first_search rest
                             (upd_partition (n_partition_id n0)
                                (add_street (w\<lparr>w_partition_id := n_partition_id n0\<rparr>)) pf, st1))
                 else
                   (let pid = partition_id pf + 1;
                        st1 = upd_way street (\<lambda>x. x\<lparr>w_partition_id := pid\<rparr>) st;
                        pf1 = pf\<lparr>partition_id := pid,
                                 partitions :=
                                   (if map_of (partitions pf) pid = None
                                    then partitions pf @ [(pid, Partition pid)]
                                    else partitions pf)\<rparr>;
                        pf2 = upd_partition pid (add_street (w\<lparr>w_partition_id := pid\<rparr>)) pf1
                    in case bfs_queue pid (nodes w) (pf2, st1) of
                         None \<Rightarrow> None
                       | Some (Inl e, s') \<Rightarrow> Some (Inl e, s')
                       | Some (Inr u, s') \<Rightarrow> breadth_first_search rest s')))"

text \<open>
  \<^verbatim>\<open>reset_partitions\<close> and the marking loop of \<^verbatim>\<open>filter_streets\<close>, over the streets the
  spatial index returns.
\<close>

fun reset_nodes :: "int list \<Rightarrow> osm_objects \<Rightarrow> osm_objects" where
  "reset_nodes [] st = st"
| "reset_nodes (nd # rest) st =
     reset_nodes rest (upd_node nd (\<lambda>x. x\<lparr>n_partition_id := 0, n_filtered := False\<rparr>) st)"

fun reset_partitions :: "int list \<Rightarrow> osm_objects \<Rightarrow> error + osm_objects" where
  "reset_partitions [] st = Inr st"
| "reset_partitions (street # rest) st =
     (case the_way st street of
        Inl e \<Rightarrow> Inl e
      | Inr w \<Rightarrow>
          reset_partitions rest
            (reset_nodes (nodes w)
               (upd_way street (\<lambda>x. x\<lparr>w_partition_id := 0, w_filtered := False\<rparr>) st)))"

fun mark_nodes :: "int list \<Rightarrow> osm_objects \<Rightarrow> osm_objects" where
  "mark_nodes [] st = st"
| "mark_nodes (nd # rest) st =
     mark_nodes rest (upd_node nd (\<lambda>x. x\<lparr>n_partition_id := - 1, n_filtered := True\<rparr>) st)"

fun mark_filtered :: "string list \<Rightarrow> int list \<Rightarrow> osm_objects \<Rightarrow> error + osm_objects" where
  "mark_filtered street_filter [] st = Inr st"
| "mark_filtered street_filter (street # rest) st =
     (case the_way st street of
        Inl e \<Rightarrow> Inl e
      | Inr w \<Rightarrow>
          (case map_of (w_tags w) ''highway'' of
             None \<Rightarrow> mark_filtered street_filter rest st
           | Some h \<Rightarrow>
               if h \<in> set street_filter then
                 mark_filtered street_filter rest
                   (mark_nodes (nodes w)
                      (upd_way street (\<lambda>x. x\<lparr>w_partition_id := - 1, w_filtered := True\<rparr>) st))
               else mark_filtered street_filter rest st))"

text \<open>
  \<^verbatim>\<open>filter_streets(street_filter)\<close> up to the labelling it starts through
  \<^verbatim>\<open>find_partitions\<close>, which empties the dictionary and resets the counter first.
\<close>

definition filter_streets ::
  "string list \<Rightarrow> int list \<Rightarrow> osm_objects \<Rightarrow> ((error + unit) \<times> finder \<times> osm_objects) option" where
  "filter_streets street_filter streets st =
     (case reset_partitions streets st of
        Inl e \<Rightarrow> Some (Inl e, \<lparr>partitions = [], partition_id = 0\<rparr>, st)
      | Inr st1 \<Rightarrow>
          (case mark_filtered street_filter streets st1 of
             Inl e \<Rightarrow> Some (Inl e, \<lparr>partitions = [], partition_id = 0\<rparr>, st1)
           | Inr st2 \<Rightarrow> breadth_first_search streets (\<lparr>partitions = [], partition_id = 0\<rparr>, st2)))"

section \<open>Line generalisation: \<^verbatim>\<open>app/douglas_peucker.py\<close>\<close>

text \<open>
  \<^verbatim>\<open>douglas_peucker(way_segment, tolerance)\<close> keeps four local variables through its
  \<^verbatim>\<open>while stack:\<close> loop. They form the loop state. The Python list \<^verbatim>\<open>stack\<close> grows
  and shrinks at its right end (\<^verbatim>\<open>append\<close>, \<^verbatim>\<open>pop()\<close>, \<^verbatim>\<open>stack[-1]\<close>), which the
  model keeps: \<open>@\<close>, \<open>butlast\<close>, \<open>last\<close>. The way segment is a list of node objects,
  which the function only reads.
  The distance is \<^verbatim>\<open>distance_point_line\<close> of the geometry kernel; an exception it
  raises is not caught and leaves \<^verbatim>\<open>douglas_peucker\<close>.
\<close>

record dp_state =
  new_way :: "node list"
  stack :: "nat list"
  anchor :: nat
  floater :: nat

text \<open>
  The body of \<^verbatim>\<open>for i in range(anchor + 1, floater)\<close>: the pair is
  \<^verbatim>\<open>(max_distance, farthest)\<close>.
\<close>

definition scan_point ::
  "geo \<Rightarrow> node list \<Rightarrow> nat \<Rightarrow> nat \<Rightarrow> real \<times> nat \<Rightarrow> nat \<Rightarrow> error + real \<times> nat" where
  "scan_point g way_segment a f acc i =
     (case distance_point_line g (way_segment ! a) (way_segment ! f) (way_segment ! i) of
        Inl e \<Rightarrow> Inl e
      | Inr distance \<Rightarrow> Inr (if distance > fst acc then (distance, i) else acc))"

text \<open>The \<^verbatim>\<open>for\<close> loop over the indices that are left.\<close>

fun farthest_scan ::
  "geo \<Rightarrow> node list \<Rightarrow> nat \<Rightarrow> nat \<Rightarrow> nat list \<Rightarrow> real \<times> nat \<Rightarrow> error + real \<times> nat" where
  "farthest_scan g way_segment a f [] acc = Inr acc"
| "farthest_scan g way_segment a f (i # rest) acc =
     (case scan_point g way_segment a f acc i of
        Inl e \<Rightarrow> Inl e
      | Inr acc' \<Rightarrow> farthest_scan g way_segment a f rest acc')"

text \<open>
  The whole \<^verbatim>\<open>for\<close> loop, started from \<^verbatim>\<open>max_distance = 0.0\<close> and
  \<^verbatim>\<open>farthest = floater\<close>.
\<close>

definition farthest_point :: "geo \<Rightarrow> node list \<Rightarrow> nat \<Rightarrow> nat \<Rightarrow> error + real \<times> nat" where
  "farthest_point g way_segment a f = farthest_scan g way_segment a f [a + 1 ..< f] (0, f)"

text \<open>One pass through the body of \<^verbatim>\<open>while stack:\<close>.\<close>

definition dp_iter :: "geo \<Rightarrow> node list \<Rightarrow> real \<Rightarrow> dp_state \<Rightarrow> error + dp_state" where
  "dp_iter g way_segment tolerance s =
     (case farthest_point g way_segment (anchor s) (floater s) of
        Inl e \<Rightarrow> Inl e
      | Inr (max_distance, farthest) \<Rightarrow>
          if max_distance < tolerance then
            (let popped = last (stack s);
                 rest = butlast (stack s)
             in Inr (s\<lparr>new_way := new_way s @ [way_segment ! popped],
                       stack := rest,
                       anchor := floater s,
                       floater := (if rest \<noteq> [] then last rest else floater s)\<rparr>))
          else Inr (s\<lparr>floater := farthest, stack := stack s @ [farthest]\<rparr>))"

text \<open>
  The \<^verbatim>\<open>while\<close> loop. It may run forever, so it lives in the option monad:
  \<open>None\<close> is "does not return"; \<open>Some (Inl e)\<close> is "raises \<open>e\<close>".
\<close>

partial_function (option) dp_loop ::
  "geo \<Rightarrow> node list \<Rightarrow> real \<Rightarrow> dp_state \<Rightarrow> (error + node list) option" where
  "dp_loop g way_segment tolerance s =
     (if stack s = [] then Some (Inr (new_way s))
      else (case dp_iter g way_segment tolerance s of
              Inl e \<Rightarrow> Some (Inl e)
            | Inr s' \<Rightarrow> dp_loop g way_segment tolerance s'))"

text \<open>
  The state before the loop. On an empty segment \<^verbatim>\<open>way_segment[anchor]\<close> raises
  \<^verbatim>\<open>IndexError\<close> before the loop starts. On a non-empty segment \<^verbatim>\<open>anchor\<close>,
  \<^verbatim>\<open>floater\<close> and the stack entries stay between \<open>0\<close> and \<open>len - 1\<close>, so they
  are naturals and no later index is out of range.
\<close>

definition dp_init :: "node list \<Rightarrow> dp_state" where
  "dp_init way_segment =
     \<lparr>new_way = [way_segment ! 0],
      stack = [length way_segment - 1],
      anchor = 0,
      floater = length way_segment - 1\<rparr>"

definition douglas_peucker :: "geo \<Rightarrow> node list \<Rightarrow> real \<Rightarrow> (error + node list) option" where
  "douglas_peucker g way_segment tolerance =
     (if way_segment = [] then Some (Inl IndexError)
      else dp_loop g way_segment tolerance (dp_init way_segment))"

text \<open>
  The loop invariant used below: the stack is strictly decreasing towards its top, every
  entry lies strictly above \<^verbatim>\<open>anchor\<close> and inside the segment, \<^verbatim>\<open>floater\<close> is the top
  entry, the bottom entry is the last index, and \<^verbatim>\<open>new_way\<close> lists the nodes at a
  strictly increasing run of indices from \<open>0\<close> to \<^verbatim>\<open>anchor\<close>.
\<close>

definition dp_inv :: "node list \<Rightarrow> dp_state \<Rightarrow> bool" where
  "dp_inv ws s \<longleftrightarrow>
     sorted_wrt (>) (stack s) \<and>
     (\<forall>x \<in> set (stack s). anchor s < x \<and> x < length ws) \<and>
     (stack s \<noteq> [] \<longrightarrow> floater s = last (stack s) \<and> hd (stack s) = length ws - 1) \<and>
     (stack s = [] \<longrightarrow> anchor s = length ws - 1) \<and>
     (\<exists>ix. new_way s = map ((!) ws) ix \<and> ix \<noteq> [] \<and> sorted_wrt (<) ix \<and> hd ix = 0 \<and> last ix = anchor s)"

section \<open>Auxiliary notions for the properties\<close>

text \<open>All ids in use: those of the nodes, of the ways and of the relations.\<close>

definition existing_ids :: "osm_objects \<Rightarrow> int set" where
  "existing_ids st = node_id ` set (node_avl st) \<union> way_id ` set (way_avl st) \<union> fst ` set (relations st)"

text \<open>
  Two states of the data representation that differ at most in the neighbour lists of
  their nodes; this is all that creating a way changes in the nodes.
\<close>

definition same_but_neighbours :: "osm_objects \<Rightarrow> osm_objects \<Rightarrow> bool" where
  "same_but_neighbours st st' \<longleftrightarrow>
     map (\<lambda>n. n\<lparr>neighbours := []\<rparr>) (node_avl st') = map (\<lambda>n. n\<lparr>neighbours := []\<rparr>) (node_avl st) \<and>
     way_avl st' = way_avl st \<and> relations st' = relations st \<and>
     street_tree st' = street_tree st \<and> building_tree st' = building_tree st \<and>
     poi st' = poi st"


text \<open>
  What a run of the loop can end in: the nodes at a strictly increasing run of indices
  from the first to the last, or an exception of a distance computation between nodes
  of the segment.
\<close>

definition dp_outcome :: "geo \<Rightarrow> node list \<Rightarrow> error + node list \<Rightarrow> bool" where
  "dp_outcome g ws r =
     (case r of
        Inr result \<Rightarrow>
          (\<exists>ix. result = map ((!) ws) ix \<and> ix \<noteq> [] \<and> sorted_wrt (<) ix \<and> hd ix = 0 \<and>
                last ix = length ws - 1)
      | Inl e \<Rightarrow>
          (\<exists>a b p. a \<in> set ws \<and> b \<in> set ws \<and> p \<in> set ws \<and> distance_point_line g a b p = Inl e))"

text \<open>
  A geodesy with a flat earth: the geodesic distance of two points is their distance in
  the projected frame.
\<close>

definition planar :: "geo \<Rightarrow> bool" where
  "planar g \<longleftrightarrow>
     (\<forall>lon1 lat1 lon2 lat2. \<exists>az_f az_b.
        geod_inv g lon1 lat1 lon2 lat2 =
          Inr (az_f, az_b,
               sqrt ((fst (utm g lon2 lat2) - fst (utm g lon1 lat1))\<^sup>2 +
                     (snd (utm g lon2 lat2) - snd (utm g lon1 lat1))\<^sup>2)))"

text \<open>
  The deviation of a point \<open>p\<close> from the chord between \<open>a\<close> and \<open>b\<close>, in the projected
  frame: the length of the perpendicular from \<open>p\<close> to the chord when its foot falls on
  the chord, and the distance to the nearer end of the chord otherwise.
\<close>

definition chord_deviation :: "geo \<Rightarrow> node \<Rightarrow> node \<Rightarrow> node \<Rightarrow> real" where
  "chord_deviation g a b p =
     (let ax = get_x_utm g a; ay = get_y_utm g a;
          bx = get_x_utm g b; by = get_y_utm g b;
          px = get_x_utm g p; py = get_y_utm g p;
          len = sqrt ((bx - ax)\<^sup>2 + (by - ay)\<^sup>2);
          foot = ((px - ax) * (bx - ax) + (py - ay) * (by - ay)) / len
      in if foot < 0 then sqrt ((px - ax)\<^sup>2 + (py - ay)\<^sup>2)
         else if len < foot then sqrt ((px - bx)\<^sup>2 + (py - by)\<^sup>2)
         else \<bar>(bx - ax) * (py - ay) - (by - ay) * (px - ax)\<bar> / len)"

text \<open>The distance of \<open>p\<close> from the line through \<open>a\<close> and \<open>b\<close>, in the projected frame.\<close>

definition line_deviation :: "geo \<Rightarrow> node \<Rightarrow> node \<Rightarrow> node \<Rightarrow> real" where
  "line_deviation g a b p =
     (let ax = get_x_utm g a; ay = get_y_utm g a;
          bx = get_x_utm g b; by = get_y_utm g b;
          px = get_x_utm g p; py = get_y_utm g p
      in \<bar>(bx - ax) * (py - ay) - (by - ay) * (px - ax)\<bar> / sqrt ((bx - ax)\<^sup>2 + (by - ay)\<^sup>2))"



text \<open>The segments of a street: the pairs of consecutive nodes.\<close>

definition segments :: "int list \<Rightarrow> (int \<times> int) list" where
  "segments ns = zip ns (tl ns)"







section \<open>Example data\<close>

text \<open>
  A planar stand-in for pyproj: coordinates are read as metres east and north, and the
  distance of two points is the sum of the differences of their eastings and of their
  northings, which is their distance when they lie on one east-west or north-south line.
\<close>

definition example_geo :: geo where
  "example_geo =
     \<lparr>geod_inv = (\<lambda>lon1 lat1 lon2 lat2. Inr (0, 0, \<bar>lon2 - lon1\<bar> + \<bar>lat2 - lat1\<bar>)),
      geod_fwd = (\<lambda>lon0 lat0 azimuth d. (lon0 + d, lat0, 0)),
      utm = (\<lambda>lon0 lat0. (lon0, lat0)),
      fmt7 = (\<lambda>x. x)\<rparr>"

text \<open>
  Two streets on one east-west line: an unnamed one from 3 to 5 in partition 1 and "Main St" from
  7 to 9 in partition 2; and a point of interest at 0 with the address "Main St", not yet
  part of a partition.
\<close>

definition residential_way :: way where
  "residential_way =
     \<lparr>way_id = 10, nodeIDs = [1, 2], w_tags = [(''highway'', ''residential'')], w_attr = [],
      nodes = [1, 2], w_partition_id = 1, w_filtered = False, generalized = [],
      box = (Fin 3, Fin 0, Fin 5, Fin 0)\<rparr>"

definition main_street_way :: way where
  "main_street_way =
     \<lparr>way_id = 11, nodeIDs = [3, 4],
      w_tags = [(''highway'', ''residential''), (''name'', ''Main St'')], w_attr = [],
      nodes = [3, 4], w_partition_id = 2, w_filtered = False, generalized = [],
      box = (Fin 7, Fin 0, Fin 9, Fin 0)\<rparr>"

definition poi_node_100 :: node where
  "poi_node_100 = Node 100 0 0 [(''addr:street'', ''Main St'')] []"

definition example_osm :: osm_objects where
  "example_osm =
     \<lparr>relations = [],
      node_avl =
        [(Node 1 3 0 [] [])\<lparr>neighbours := [2], n_partition_id := 1\<rparr>,
         (Node 2 5 0 [] [])\<lparr>neighbours := [1], n_partition_id := 1\<rparr>,
         (Node 3 7 0 [] [])\<lparr>neighbours := [4], n_partition_id := 2\<rparr>,
         (Node 4 9 0 [] [])\<lparr>neighbours := [3], n_partition_id := 2\<rparr>,
         poi_node_100],
      way_avl = [residential_way, main_street_way],
      street_tree = [(10, (Fin 3, Fin 0, Fin 5, Fin 0)), (11, (Fin 7, Fin 0, Fin 9, Fin 0))],
      building_tree = [],
      poi = {}\<rparr>"

text \<open>
  The same data with a second point of interest, node 200, on the meridian of node 1 and
  50 to the north of it.
\<close>

definition meridian_osm :: osm_objects where
  "meridian_osm =
     example_osm\<lparr>node_avl := node_avl example_osm @ [Node 200 3 50 [(''addr:street'', ''Main St'')] []]\<rparr>"

text \<open>
  A street network with two residential streets, 10 from node 1 to node 2 and 11 from
  node 2 to node 3, and two footways, 12 from node 2 to node 4 and 13 from node 3 to
  node 5, as the import builds it.
\<close>

definition crossing_osm :: osm_objects where
  "crossing_osm =
     \<lparr>relations = [],
      node_avl =
        [(Node 1 0 0 [] [])\<lparr>neighbours := [2]\<rparr>,
         (Node 2 1 0 [] [])\<lparr>neighbours := [1, 3, 4]\<rparr>,
         (Node 3 2 0 [] [])\<lparr>neighbours := [2, 5]\<rparr>,
         (Node 4 1 1 [] [])\<lparr>neighbours := [2]\<rparr>,
         (Node 5 2 1 [] [])\<lparr>neighbours := [3]\<rparr>],
      way_avl =
        [\<lparr>way_id = 10, nodeIDs = [1, 2], w_tags = [(''highway'', ''residential'')], w_attr = [],
          nodes = [1, 2], w_partition_id = 0, w_filtered = False, generalized = [],
          box = (Fin 0, Fin 0, Fin 1, Fin 0)\<rparr>,
         \<lparr>way_id = 11, nodeIDs = [2, 3], w_tags = [(''highway'', ''residential'')], w_attr = [],
          nodes = [2, 3], w_partition_id = 0, w_filtered = False, generalized = [],
          box = (Fin 1, Fin 0, Fin 2, Fin 0)\<rparr>,
         \<lparr>way_id = 12, nodeIDs = [2, 4], w_tags = [(''highway'', ''footway'')], w_attr = [],
          nodes = [2, 4], w_partition_id = 0, w_filtered = False, generalized = [],
          box = (Fin 1, Fin 0, Fin 1, Fin 1)\<rparr>,
         \<lparr>way_id = 13, nodeIDs = [3, 5], w_tags = [(''highway'', ''footway'')], w_attr = [],
          nodes = [3, 5], w_partition_id = 0, w_filtered = False, generalized = [],
          box = (Fin 2, Fin 0, Fin 2, Fin 1)\<rparr>],
      street_tree =
        [(10, (Fin 0, Fin 0, Fin 1, Fin 0)), (11, (Fin 1, Fin 0, Fin 2, Fin 0)),
         (12, (Fin 1, Fin 0, Fin 1, Fin 1)), (13, (Fin 2, Fin 0, Fin 2, Fin 1))],
      building_tree = [],
      poi = {}\<rparr>"

text \<open>The two loops that may run forever are executable through their unfolding equations.\<close>

text \<open>
  A flat stand-in for pyproj: coordinates are read as metres east and north, and the
  distance of two points is their Euclidean distance.
\<close>

definition planar_geo :: geo where
  "planar_geo =
     \<lparr>geod_inv = (\<lambda>lon1 lat1 lon2 lat2. Inr (0, 0, sqrt ((lon2 - lon1)\<^sup>2 + (lat2 - lat1)\<^sup>2))),
      geod_fwd = (\<lambda>lon0 lat0 azimuth d. (lon0 + d, lat0, 0)),
      utm = (\<lambda>lon0 lat0. (lon0, lat0)),
      fmt7 = (\<lambda>x. x)\<rparr>"

text \<open>
  The same frame where all meridians meet: every geodesic distance is 0, as between
  points at a pole.
\<close>

definition polar_geo :: geo where
  "polar_geo = planar_geo\<lparr>geod_inv := (\<lambda>lon1 lat1 lon2 lat2. Inr (0, 0, 0))\<rparr>"

text \<open>
  Way segments of three nodes: one with its middle node 3 beside an east-west chord of
  length 8, one with its middle node 1 beside a north-south chord of length 10, one
  with its middle node 3 before the start of the east-west chord; and one of two nodes.
\<close>

definition bend_segment :: "node list" where
  "bend_segment = [Node 1 0 0 [] [], Node 2 4 3 [] [], Node 3 8 0 [] []]"

definition meridian_segment :: "node list" where
  "meridian_segment = [Node 1 0 0 [] [], Node 2 1 5 [] [], Node 3 0 10 [] []]"

definition overshoot_segment :: "node list" where
  "overshoot_segment = [Node 1 0 0 [] [], Node 2 (- 3) 0 [] [], Node 3 8 0 [] []]"

definition short_segment :: "node list" where
  "short_segment = [Node 1 0 0 [] [], Node 3 8 0 [] []]"

text \<open>
  The footway from the point of interest 100 to node 1 that \<^verbatim>\<open>append_new_street\<close> creates
  in the example data, and the data with that way.
\<close>

definition synthetic_footway :: way where
  "synthetic_footway =
     \<lparr>way_id = - 1, nodeIDs = [100, 1], w_tags = [(''highway'', ''footway'')],
      w_attr = [(''version'', ''1'')], nodes = [100, 1], w_partition_id = 0, w_filtered = False,
      generalized = [], box = (Fin 0, Fin 0, Fin 3, Fin 0)\<rparr>"

definition footway_osm :: osm_objects where
  "footway_osm = snd (append_new_street example_osm [(''highway'', ''footway'')] [100, 1] [])"

declare dp_loop.simps [code]

declare bfs_queue.simps [code]


section \<open>Properties of the line generaliser\<close>

lemma farthest_scan_inv:
  assumes "farthest_scan g ws a f xs acc = Inr r" and "P acc"
    and "\<And>acc i d. i \<in> set xs \<Longrightarrow> P acc \<Longrightarrow>
           distance_point_line g (ws ! a) (ws ! f) (ws ! i) = Inr d \<Longrightarrow>
           P (if d > fst acc then (d, i) else acc)"
  shows "P r"
  using assms
proof (induction xs arbitrary: acc)
  case Nil
  then show ?case by simp
next
  case (Cons i xs)
  from Cons.prems(1) obtain d where d: "distance_point_line g (ws ! a) (ws ! f) (ws ! i) = Inr d"
    and run: "farthest_scan g ws a f xs (if d > fst acc then (d, i) else acc) = Inr r"
    by (auto simp: scan_point_def split: sum.splits)
  show ?case
  proof (rule Cons.IH[OF run])
    show "P (if d > fst acc then (d, i) else acc)" using Cons.prems(2,3) d by simp
  qed (use Cons.prems(3) in auto)
qed

lemma farthest_scan_raises:
  assumes "farthest_scan g ws a f xs acc = Inl e"
  shows "\<exists>i \<in> set xs. distance_point_line g (ws ! a) (ws ! f) (ws ! i) = Inl e"
  using assms
  by (induction xs arbitrary: acc) (auto simp: scan_point_def split: sum.splits)


lemma farthest_point_cases:
  assumes "farthest_point g ws a f = Inr (m, far)"
  shows "(m = 0 \<and> far = f) \<or> (0 < m \<and> a < far \<and> far < f)"
proof -
  have "(fst (m, far) = 0 \<and> snd (m, far) = f) \<or> (0 < fst (m, far) \<and> a < snd (m, far) \<and> snd (m, far) < f)"
    by (rule farthest_scan_inv[OF assms[unfolded farthest_point_def],
          where P = "\<lambda>acc. (fst acc = 0 \<and> snd acc = f) \<or> (0 < fst acc \<and> a < snd acc \<and> snd acc < f)"])
       (auto split: if_splits)
  then show ?thesis by simp
qed

lemma farthest_point_raises:
  assumes "farthest_point g ws a f = Inl e"
  shows "\<exists>i. a < i \<and> i < f \<and> distance_point_line g (ws ! a) (ws ! f) (ws ! i) = Inl e"
  using farthest_scan_raises[OF assms[unfolded farthest_point_def]] by (auto simp: Suc_le_eq)


lemma sorted_wrt_less_last: "sorted_wrt (<) (ix::nat list) \<Longrightarrow> x \<in> set ix \<Longrightarrow> x \<le> last ix"
  by (induction ix) (auto simp: less_imp_le)

lemma sorted_wrt_gr_last: "sorted_wrt (>) (st::nat list) \<Longrightarrow> x \<in> set st \<Longrightarrow> last st \<le> x"
  by (induction st) (auto simp: less_imp_le)

lemma dp_iter_accept:
  assumes "farthest_point g ws (anchor s) (floater s) = Inr (m, far)" and "m < tol"
  shows "dp_iter g ws tol s = Inr (s\<lparr>new_way := new_way s @ [ws ! last (stack s)],
                 stack := butlast (stack s),
                 anchor := floater s,
                 floater := (if butlast (stack s) \<noteq> [] then last (butlast (stack s)) else floater s)\<rparr>)"
  using assms by (simp add: dp_iter_def Let_def)

lemma dp_iter_split:
  assumes "farthest_point g ws (anchor s) (floater s) = Inr (m, far)" and "\<not> m < tol"
  shows "dp_iter g ws tol s = Inr (s\<lparr>floater := far, stack := stack s @ [far]\<rparr>)"
  using assms by (simp add: dp_iter_def Let_def)

lemma dp_inv_accept:
  assumes inv: "dp_inv ws s" and ne: "stack s \<noteq> []"
  defines "s' \<equiv> s\<lparr>new_way := new_way s @ [ws ! last (stack s)],
                 stack := butlast (stack s),
                 anchor := floater s,
                 floater := (if butlast (stack s) \<noteq> [] then last (butlast (stack s)) else floater s)\<rparr>"
  shows "dp_inv ws s' \<and> anchor s < anchor s' \<and> anchor s' < length ws"
proof -
  obtain rest top where st: "stack s = rest @ [top]"
    using ne by (metis append_butlast_last_id)
  from inv obtain ix where ix: "new_way s = map ((!) ws) ix" "ix \<noteq> []" "sorted_wrt (<) ix"
      "hd ix = 0" "last ix = anchor s"
    unfolding dp_inv_def by blast
  from inv st have fl: "floater s = top" and hdst: "hd (rest @ [top]) = length ws - 1"
    and srt: "sorted_wrt (>) (rest @ [top])" and bnd: "\<forall>x \<in> set (rest @ [top]). anchor s < x \<and> x < length ws"
    unfolding dp_inv_def by auto
  have top: "anchor s < top" "top < length ws" using bnd by auto
  have rest_gt: "\<forall>x \<in> set rest. top < x" using srt by (auto simp: sorted_wrt_append)
  have ix': "sorted_wrt (<) (ix @ [top])"
    using ix(3,5) top(1) sorted_wrt_less_last[OF ix(3)] by (fastforce simp: sorted_wrt_append)
  have "\<exists>jx. new_way s' = map ((!) ws) jx \<and> jx \<noteq> [] \<and> sorted_wrt (<) jx \<and> hd jx = 0 \<and> last jx = anchor s'"
    by (rule exI[of _ "ix @ [top]"]) (use ix ix' fl st in \<open>simp add: s'_def\<close>)
  moreover have "sorted_wrt (>) (stack s')" using srt by (simp add: s'_def st sorted_wrt_append)
  moreover have "\<forall>x \<in> set (stack s'). anchor s' < x \<and> x < length ws"
    using rest_gt bnd by (simp add: s'_def st fl)
  moreover have "stack s' \<noteq> [] \<longrightarrow> floater s' = last (stack s') \<and> hd (stack s') = length ws - 1"
    using hdst by (auto simp: s'_def st)
  moreover have "stack s' = [] \<longrightarrow> anchor s' = length ws - 1"
    using hdst by (auto simp: s'_def st fl)
  ultimately have "dp_inv ws s'" unfolding dp_inv_def by blast
  then show ?thesis using top fl by (simp add: s'_def)
qed

lemma dp_inv_split:
  assumes inv: "dp_inv ws s" and ne: "stack s \<noteq> []"
    and far: "anchor s < far" "far < floater s"
  defines "s' \<equiv> s\<lparr>floater := far, stack := stack s @ [far]\<rparr>"
  shows "dp_inv ws s'"
proof -
  from inv ne have fl: "floater s = last (stack s)" and hdst: "hd (stack s) = length ws - 1"
    and srt: "sorted_wrt (>) (stack s)" and bnd: "\<forall>x \<in> set (stack s). anchor s < x \<and> x < length ws"
    unfolding dp_inv_def by auto
  have "\<forall>x \<in> set (stack s). far < x"
    using sorted_wrt_gr_last[OF srt] far(2) fl by fastforce
  then have "sorted_wrt (>) (stack s')" using srt by (auto simp: s'_def sorted_wrt_append)
  moreover have "far < length ws" using bnd far(2) fl ne last_in_set by fastforce
  then have "\<forall>x \<in> set (stack s'). anchor s' < x \<and> x < length ws"
    using bnd far(1) by (auto simp: s'_def)
  moreover have "stack s' \<noteq> [] \<longrightarrow> floater s' = last (stack s') \<and> hd (stack s') = length ws - 1"
    using hdst ne by (auto simp: s'_def)
  moreover have "\<exists>jx. new_way s' = map ((!) ws) jx \<and> jx \<noteq> [] \<and> sorted_wrt (<) jx \<and> hd jx = 0 \<and> last jx = anchor s'"
    using inv unfolding dp_inv_def by (simp add: s'_def)
  ultimately show ?thesis unfolding dp_inv_def by (simp add: s'_def)
qed

lemma dp_loop_returns:
  assumes tol: "0 < tol"
  shows "dp_inv ws s \<Longrightarrow> floater s < length ws \<Longrightarrow>
         \<exists>r. dp_loop g ws tol s = Some r \<and> dp_outcome g ws r"
proof (induction s rule: wf_induct_rule[OF wf_measures[of "[\<lambda>s. length ws - anchor s, \<lambda>s. floater s - anchor s]"]])
  case (1 s)
  show ?case
  proof (cases "stack s = []")
    case True
    with "1.prems" show ?thesis
      unfolding dp_inv_def dp_outcome_def by (subst dp_loop.simps) auto
  next
    case False
    show ?thesis
    proof (cases "farthest_point g ws (anchor s) (floater s)")
      case (Inl e)
      from farthest_point_raises[OF Inl] obtain i where
        i: "anchor s < i" "i < floater s"
          "distance_point_line g (ws ! anchor s) (ws ! floater s) (ws ! i) = Inl e" by blast
      have "ws ! anchor s \<in> set ws" "ws ! floater s \<in> set ws" "ws ! i \<in> set ws"
        using i(1,2) "1.prems"(2) by simp_all
      with i(3) have "dp_outcome g ws (Inl e)" unfolding dp_outcome_def by auto
      moreover have "dp_loop g ws tol s = Some (Inl e)"
        using False Inl by (subst dp_loop.simps) (simp add: dp_iter_def)
      ultimately show ?thesis by simp
    next
      case (Inr mf)
      obtain m far where mf: "farthest_point g ws (anchor s) (floater s) = Inr (m, far)"
        using Inr by (cases mf) simp
      obtain s' where s': "dp_iter g ws tol s = Inr s'"
        using mf by (cases "m < tol") (simp_all add: dp_iter_accept dp_iter_split)
      have step: "dp_loop g ws tol s = dp_loop g ws tol s'"
        using False s' by (subst dp_loop.simps) simp
      have "dp_inv ws s' \<and> floater s' < length ws \<and>
            (s', s) \<in> measures [\<lambda>s. length ws - anchor s, \<lambda>s. floater s - anchor s]"
      proof (cases "m < tol")
        case True
        have eq: "s' = s\<lparr>new_way := new_way s @ [ws ! last (stack s)],
                 stack := butlast (stack s),
                 anchor := floater s,
                 floater := (if butlast (stack s) \<noteq> [] then last (butlast (stack s)) else floater s)\<rparr>"
          using dp_iter_accept[OF mf True] s' by simp
        from dp_inv_accept[OF "1.prems"(1) False]
        have acc: "dp_inv ws s'" "anchor s < floater s" "floater s < length ws"
          by (simp_all add: eq)
        from acc(2,3) have "length ws - floater s < length ws - anchor s" by arith
        moreover have "floater s' < length ws"
          using acc(1,3) unfolding dp_inv_def by (auto simp: eq)
        ultimately show ?thesis using acc(1) by (simp add: eq)
      next
        case nacc: False
        have eq: "s' = s\<lparr>floater := far, stack := stack s @ [far]\<rparr>"
          using dp_iter_split[OF mf nacc] s' by simp
        from nacc tol farthest_point_cases[OF mf]
        have far: "anchor s < far" "far < floater s" by auto
        from dp_inv_split[OF "1.prems"(1) False far] far "1.prems"(2) show ?thesis
          by (simp add: eq)
      qed
      with "1.IH"[of s'] step show ?thesis by simp
    qed
  qed
qed

lemma dp_inv_init: "2 \<le> length ws \<Longrightarrow> dp_inv ws (dp_init ws)"
  unfolding dp_inv_def dp_init_def by (auto intro: exI[of _ "[0]"])

lemma subseq_map_nth_drop:
  "sorted_wrt (<) ix \<Longrightarrow> \<forall>i \<in> set ix. k \<le> i \<and> i < length ws \<Longrightarrow> subseq (map ((!) ws) ix) (drop k ws)"
proof (induction ix arbitrary: k)
  case Nil
  then show ?case by simp
next
  case (Cons i ix)
  then have "subseq (map ((!) ws) ix) (drop (Suc i) ws)" by (intro Cons.IH) auto
  moreover have "drop k ws = take (i - k) (drop k ws) @ ws ! i # drop (Suc i) ws"
    using Cons.prems(2) by (metis Cons_nth_drop_Suc add_diff_inverse_nat append_take_drop_id drop_drop list.set_intros(1) not_less add.commute)
  ultimately show ?case
    by (metis list.simps(9) list_emb_append2 subseq_Cons2)
qed

text \<open>With a tolerance that is not positive no chord is ever accepted.\<close>

lemma dp_loop_no_result:
  assumes "dp_loop g ws tol s = Some y"
  shows "tol \<le> 0 \<and> stack s \<noteq> [] \<longrightarrow> (\<exists>e. y = Inl e)"
proof (rule dp_loop.raw_induct[where P = "\<lambda>g ws tol s y. tol \<le> 0 \<and> stack s \<noteq> [] \<longrightarrow> (\<exists>e. y = Inl e)", OF _ assms])
  fix loop :: "geo \<Rightarrow> node list \<Rightarrow> real \<Rightarrow> dp_state \<Rightarrow> (error + node list) option"
    and g ws tol s y
  assume IH: "\<And>g ws tol s y. loop g ws tol s = Some y \<Longrightarrow> tol \<le> 0 \<and> stack s \<noteq> [] \<longrightarrow> (\<exists>e. y = Inl e)"
    and run: "(if stack s = [] then Some (Inr (new_way s))
               else (case dp_iter g ws tol s of Inl e \<Rightarrow> Some (Inl e) | Inr s' \<Rightarrow> loop g ws tol s')) = Some y"
  show "tol \<le> 0 \<and> stack s \<noteq> [] \<longrightarrow> (\<exists>e. y = Inl e)"
  proof (intro impI, elim conjE)
    assume tol: "tol \<le> 0" and ne: "stack s \<noteq> []"
    show "\<exists>e. y = Inl e"
    proof (cases "dp_iter g ws tol s")
      case (Inl e)
      with run ne show ?thesis by auto
    next
      case (Inr s')
      then obtain m far where mf: "farthest_point g ws (anchor s) (floater s) = Inr (m, far)"
        by (auto simp: dp_iter_def split: sum.splits)
      have "0 \<le> m" using farthest_point_cases[OF mf] by auto
      then have "\<not> m < tol" using tol by simp
      from dp_iter_split[OF mf this] Inr have "stack s' \<noteq> []" by auto
      moreover from run ne Inr have "loop g ws tol s' = Some y" by simp
      ultimately show ?thesis using IH tol by blast
    qed
  qed
qed

lemma douglas_peucker_no_result:
  "tol \<le> 0 \<Longrightarrow> douglas_peucker g ws tol \<noteq> Some (Inr result)"
  using dp_loop_no_result[of g ws tol "dp_init ws" "Inr result"]
  by (auto simp: douglas_peucker_def dp_init_def)

lemma douglas_peucker_two_nodes_diverges:
  assumes "tol \<le> 0" and "length ws = 2"
  shows "douglas_peucker g ws tol = None"
proof (cases "douglas_peucker g ws tol")
  case None
  then show ?thesis .
next
  case (Some y)
  have "y = Inr result \<Longrightarrow> False" for result
    using douglas_peucker_no_result[OF assms(1), of g ws result] Some by simp
  moreover have "y = Inl e \<Longrightarrow> False" for e
  proof -
    assume y: "y = Inl e"
    have ne: "ws \<noteq> []" using assms(2) by auto
    have run: "dp_loop g ws tol (dp_init ws) = Some (Inl e)"
      using Some y ne by (simp add: douglas_peucker_def)
    have "tol \<le> 0 \<and> floater s \<le> Suc (anchor s) \<longrightarrow> r \<noteq> Inl e" if "dp_loop g ws tol s = Some r" for s r
    proof (rule dp_loop.raw_induct[where P = "\<lambda>g ws tol s r. tol \<le> 0 \<and> floater s \<le> Suc (anchor s) \<longrightarrow> r \<noteq> Inl e", OF _ that])
      fix loop :: "geo \<Rightarrow> node list \<Rightarrow> real \<Rightarrow> dp_state \<Rightarrow> (error + node list) option"
        and g ws tol s r
      assume IH: "\<And>g ws tol s r. loop g ws tol s = Some r \<Longrightarrow> tol \<le> 0 \<and> floater s \<le> Suc (anchor s) \<longrightarrow> r \<noteq> Inl e"
        and run: "(if stack s = [] then Some (Inr (new_way s))
               else (case dp_iter g ws tol s of Inl e \<Rightarrow> Some (Inl e) | Inr s' \<Rightarrow> loop g ws tol s')) = Some r"
      show "tol \<le> 0 \<and> floater s \<le> Suc (anchor s) \<longrightarrow> r \<noteq> Inl e"
      proof (intro impI, elim conjE)
        assume tol: "tol \<le> 0" and c: "floater s \<le> Suc (anchor s)"
        then have fp: "farthest_point g ws (anchor s) (floater s) = Inr (0, floater s)"
          by (simp add: farthest_point_def)
        show "r \<noteq> Inl e"
        proof (cases "stack s = []")
          case True
          with run show ?thesis by auto
        next
          case False
          obtain s' where s': "dp_iter g ws tol s = Inr s'" "floater s' \<le> Suc (anchor s')"
            using fp c tol by (auto simp: dp_iter_def Let_def)
          with run False have "loop g ws tol s' = Some r" by simp
          with IH s'(2) tol show ?thesis by blast
        qed
      qed
    qed
    from this[OF run] assms show False by (simp add: dp_init_def)
  qed
  ultimately show ?thesis by (cases y) auto
qed

lemma planar_inv:
  assumes "planar g"
  shows "inv_distance_or_zero g a b =
     Inr (sqrt ((get_x_utm g b - get_x_utm g a)\<^sup>2 + (get_y_utm g b - get_y_utm g a)\<^sup>2))"
proof -
  from assms obtain az_f az_b where
    "geod_inv g (lon a) (lat a) (lon b) (lat b) =
          Inr (az_f, az_b,
               sqrt ((fst (utm g (lon b) (lat b)) - fst (utm g (lon a) (lat a)))\<^sup>2 +
                     (snd (utm g (lon b) (lat b)) - snd (utm g (lon a) (lat a)))\<^sup>2))"
    unfolding planar_def by blast
  then show ?thesis by (simp add: inv_distance_or_zero_def get_x_utm_def get_y_utm_def)
qed

lemma planar_unit:
  assumes "planar g" and "TOLERANCE < \<bar>lon a - lon b\<bar>"
    and "utm g (lon a) (lat a) \<noteq> utm g (lon b) (lat b)"
  defines "len \<equiv> sqrt ((get_x_utm g b - get_x_utm g a)\<^sup>2 + (get_y_utm g b - get_y_utm g a)\<^sup>2)"
  shows "line_segment_unit g a b =
           Inr ((get_x_utm g b - get_x_utm g a) / len, (get_y_utm g b - get_y_utm g a) / len)"
    and "0 < len"
proof -
  have "get_x_utm g b - get_x_utm g a \<noteq> 0 \<or> get_y_utm g b - get_y_utm g a \<noteq> 0"
    using assms(3) by (auto simp: get_x_utm_def get_y_utm_def prod_eq_iff)
  then have "0 < (get_x_utm g b - get_x_utm g a)\<^sup>2 + (get_y_utm g b - get_y_utm g a)\<^sup>2"
    by (auto simp: sum_power2_gt_zero_iff)
  then show pos: "0 < len" unfolding len_def by simp
  from assms(1) obtain az_f az_b where
    "geod_inv g (lon a) (lat a) (lon b) (lat b) = Inr (az_f, az_b, len)"
    unfolding planar_def len_def get_x_utm_def get_y_utm_def by blast
  moreover have "\<not> have_same_coords (Some a) (Some b) TOLERANCE"
    using assms(2) by (simp add: have_same_coords_def)
  ultimately show "line_segment_unit g a b =
           Inr ((get_x_utm g b - get_x_utm g a) / len, (get_y_utm g b - get_y_utm g a) / len)"
    using pos by (simp add: line_segment_unit_def Let_def)
qed

lemma lagrange_sqrt:
  fixes ex ey lx ly :: real
  assumes "0 < len" and "len\<^sup>2 = lx\<^sup>2 + ly\<^sup>2"
  shows "sqrt \<bar>(sqrt (ex\<^sup>2 + ey\<^sup>2))\<^sup>2 - (ex * (- (lx / len)) + ey * (- (ly / len)))\<^sup>2\<bar>
       = \<bar>lx * ey - ly * ex\<bar> / len"
proof -
  have "(sqrt (ex\<^sup>2 + ey\<^sup>2))\<^sup>2 = ex\<^sup>2 + ey\<^sup>2" by simp
  moreover have "(ex * (- (lx / len)) + ey * (- (ly / len)))\<^sup>2 = (ex * lx + ey * ly)\<^sup>2 / len\<^sup>2"
    using assms(1) by (simp add: field_simps power2_eq_square)
  moreover have "(ex\<^sup>2 + ey\<^sup>2) - (ex * lx + ey * ly)\<^sup>2 / len\<^sup>2 = (lx * ey - ly * ex)\<^sup>2 / len\<^sup>2"
  proof -
    have "(ex\<^sup>2 + ey\<^sup>2) * len\<^sup>2 - (ex * lx + ey * ly)\<^sup>2 = (lx * ey - ly * ex)\<^sup>2"
      unfolding assms(2) by (simp add: power2_eq_square algebra_simps)
    moreover have "len\<^sup>2 \<noteq> 0" using assms(1) by simp
    ultimately show ?thesis by (simp add: field_simps)
  qed
  ultimately have "\<bar>(sqrt (ex\<^sup>2 + ey\<^sup>2))\<^sup>2 - (ex * (- (lx / len)) + ey * (- (ly / len)))\<^sup>2\<bar>
      = (\<bar>lx * ey - ly * ex\<bar> / len)\<^sup>2"
    by (simp add: power_divide)
  moreover have "0 \<le> \<bar>lx * ey - ly * ex\<bar> / len" using assms(1) by simp
  ultimately show ?thesis by (simp only: real_sqrt_abs abs_of_nonneg)
     
qed

lemma planar_distance_point_to_line:
  assumes pl: "planar g" and far: "TOLERANCE < \<bar>lon a - lon b\<bar>"
    and ne: "utm g (lon a) (lat a) \<noteq> utm g (lon b) (lat b)"
  shows "distance_point_to_line g a b p = Inr (chord_deviation g a b p, [MNode (node_id a)]) \<or>
         distance_point_to_line g a b p = Inr (chord_deviation g a b p, [MNode (node_id b)]) \<or>
         (\<exists>t. distance_point_to_line g a b p =
                Inr (chord_deviation g a b p, [MNode (node_id a), MNode (node_id b), MFloat t]))"
proof -
  define lx ly sx sy ex ey where "lx = get_x_utm g b - get_x_utm g a"
    and "ly = get_y_utm g b - get_y_utm g a"
    and "sx = get_x_utm g p - get_x_utm g a" and "sy = get_y_utm g p - get_y_utm g a"
    and "ex = get_x_utm g p - get_x_utm g b" and "ey = get_y_utm g p - get_y_utm g b"
  define len where "len = sqrt (lx\<^sup>2 + ly\<^sup>2)"
  define foot where "foot = (sx * lx + sy * ly) / len"
  note unit = planar_unit[OF pl far ne, folded lx_def ly_def, folded len_def]
  have pos: "0 < len" by (rule unit(2))
  have len2: "len\<^sup>2 = lx\<^sup>2 + ly\<^sup>2" unfolding len_def by simp
  have e: "ex = sx - lx" "ey = sy - ly" by (simp_all add: ex_def ey_def sx_def sy_def lx_def ly_def)
  have ps: "sx * (lx / len) + sy * (ly / len) = foot"
    using pos by (simp add: foot_def field_simps)
  have fl: "foot * len = sx * lx + sy * ly" using pos by (simp add: foot_def)
  have "ex * lx + ey * ly = foot * len - len\<^sup>2"
    unfolding fl len2 by (simp add: e power2_eq_square algebra_simps)
  then have "- (ex * lx + ey * ly) / len = len - foot"
    using pos by (simp add: field_simps power2_eq_square)
  then have ps2: "ex * (- (lx / len)) + ey * (- (ly / len)) = len - foot"
    using pos by (simp add: field_simps)
  have cross: "lx * ey - ly * ex = lx * sy - ly * sx" by (simp add: e algebra_simps)
  have dev: "chord_deviation g a b p =
     (if foot < 0 then sqrt (sx\<^sup>2 + sy\<^sup>2)
      else if len < foot then sqrt (ex\<^sup>2 + ey\<^sup>2)
      else \<bar>lx * sy - ly * sx\<bar> / len)"
    unfolding chord_deviation_def Let_def
    by (simp only: lx_def[symmetric] ly_def[symmetric] sx_def[symmetric] sy_def[symmetric]
        ex_def[symmetric] ey_def[symmetric] len_def[symmetric])
       (simp add: foot_def)
  have inva: "inv_distance_or_zero g a p = Inr (sqrt (sx\<^sup>2 + sy\<^sup>2))"
    using planar_inv[OF pl, of a p] by (simp add: sx_def sy_def)
  have invb: "inv_distance_or_zero g b p = Inr (sqrt (ex\<^sup>2 + ey\<^sup>2))"
    using planar_inv[OF pl, of b p] by (simp add: ex_def ey_def)
  have lag: "sqrt \<bar>(sqrt (ex\<^sup>2 + ey\<^sup>2))\<^sup>2 - (len - foot)\<^sup>2\<bar> = \<bar>lx * sy - ly * sx\<bar> / len"
    using lagrange_sqrt[OF pos len2, of ex ey] by (simp only: ps2 cross)
  have run: "distance_point_to_line g a b p =
     (if foot < 0 then Inr (sqrt (sx\<^sup>2 + sy\<^sup>2), [MNode (node_id a)])
      else if len - foot < 0 then Inr (sqrt (ex\<^sup>2 + ey\<^sup>2), [MNode (node_id b)])
      else Inr (sqrt \<bar>(sqrt (ex\<^sup>2 + ey\<^sup>2))\<^sup>2 - (len - foot)\<^sup>2\<bar>,
                [MNode (node_id a), MNode (node_id b), MFloat foot]))"
    unfolding distance_point_to_line_def unit(1) Let_def
    by (simp only: sum.case prod.case sx_def[symmetric] sy_def[symmetric] ex_def[symmetric]
        ey_def[symmetric] ps ps2 inva invb)
  show ?thesis unfolding run dev lag by auto
qed

lemma planar_distance_point_line:
  assumes "planar g" and "TOLERANCE < \<bar>lon a - lon b\<bar>"
    and "utm g (lon a) (lat a) \<noteq> utm g (lon b) (lat b)"
  shows "distance_point_line g a b p = Inr (chord_deviation g a b p)"
  using planar_distance_point_to_line[OF assms, of p]
  by (auto simp: distance_point_line_def)

lemma planar_planar_geo: "planar planar_geo"
  by (simp add: planar_def planar_geo_def)

lemma sqrt_64: "sqrt 64 = 8" by (rule real_sqrt_unique) simp_all

lemma sqrt_25: "sqrt 25 = 5" by (rule real_sqrt_unique) simp_all

lemma sqrt_9: "sqrt 9 = 3" by (rule real_sqrt_unique) simp_all

lemma bend_deviation: "chord_deviation planar_geo (Node 1 0 0 [] []) (Node 3 8 0 [] []) (Node 2 4 3 [] []) = 3"
  by (simp add: chord_deviation_def planar_geo_def get_x_utm_def get_y_utm_def Node_def Let_def sqrt_64)

lemma bend_distance:
  "distance_point_line planar_geo (Node 1 0 0 [] []) (Node 3 8 0 [] []) (Node 2 4 3 [] []) = Inr 3"
  using planar_distance_point_line[OF planar_planar_geo, of "Node 1 0 0 [] []" "Node 3 8 0 [] []"
      "Node 2 4 3 [] []"]
  by (simp add: bend_deviation) (simp add: Node_def TOLERANCE_def planar_geo_def)

lemmas dp_eval_defs = douglas_peucker_def dp_init_def dp_loop.simps dp_iter_def farthest_point_def
  scan_point_def Let_def

lemma upt_1_2: "[Suc 0 ..< 2] = [Suc 0]"
  by (simp add: upt_rec)

lemma bend_run_small:
  "tol \<le> 3 \<Longrightarrow> 0 < tol \<Longrightarrow> douglas_peucker planar_geo bend_segment tol = Some (Inr bend_segment)"
  by (simp add: bend_segment_def dp_eval_defs upt_1_2 bend_distance)

lemma bend_run_large:
  "3 < tol \<Longrightarrow> douglas_peucker planar_geo bend_segment tol =
     Some (Inr [Node 1 0 0 [] [], Node 3 8 0 [] []])"
  by (simp add: bend_segment_def dp_eval_defs upt_1_2 bend_distance)

text \<open>
  Claim C1, as the code has it: for every way segment of at least two nodes and every
  tolerance greater than zero, \<^verbatim>\<open>douglas_peucker\<close> terminates. It either raises an
  exception that \<^verbatim>\<open>distance_point_line\<close> raised for three nodes of the segment, or returns
  an ordered subsequence of the input whose first element is the first node of the
  segment and whose last element is its last node; it returns when no distance
  computation between nodes of the segment raises.
\<close>

theorem douglas_peucker_terminates_subsequence:
  assumes "2 \<le> length way_segment" and "0 < tolerance"
  shows "\<exists>r. douglas_peucker g way_segment tolerance = Some r \<and>
           (case r of
              Inr result \<Rightarrow>
                subseq result way_segment \<and>
                hd result = hd way_segment \<and> last result = last way_segment
            | Inl e \<Rightarrow>
                (\<exists>a b p. a \<in> set way_segment \<and> b \<in> set way_segment \<and> p \<in> set way_segment \<and>
                   distance_point_line g a b p = Inl e)) \<and>
           ((\<forall>a \<in> set way_segment. \<forall>b \<in> set way_segment. \<forall>p \<in> set way_segment.
               \<exists>d. distance_point_line g a b p = Inr d) \<longrightarrow> (\<exists>result. r = Inr result))"
proof -
  have fl: "floater (dp_init way_segment) < length way_segment"
    using assms(1) by (simp add: dp_init_def)
  from dp_loop_returns[OF assms(2) dp_inv_init[OF assms(1)] fl, of g]
  obtain r where r: "dp_loop g way_segment tolerance (dp_init way_segment) = Some r"
    and out: "dp_outcome g way_segment r" by blast
  have ne: "way_segment \<noteq> []" using assms(1) by auto
  have run: "douglas_peucker g way_segment tolerance = Some r"
    using r ne by (simp add: douglas_peucker_def)
  show ?thesis
  proof (cases r)
    case (Inl e)
    with out obtain a b p where "a \<in> set way_segment" "b \<in> set way_segment" "p \<in> set way_segment"
      "distance_point_line g a b p = Inl e"
      unfolding dp_outcome_def by auto
    with run Inl show ?thesis by fastforce
  next
    case (Inr result)
    with out obtain ix where ix: "result = map ((!) way_segment) ix"
      "ix \<noteq> []" "sorted_wrt (<) ix" "hd ix = 0" "last ix = length way_segment - 1"
      unfolding dp_outcome_def by auto
    have bnd: "\<forall>i \<in> set ix. 0 \<le> i \<and> i < length way_segment"
      using sorted_wrt_less_last[OF ix(3)] ix(5) assms(1) by fastforce
    have "subseq (map ((!) way_segment) ix) (drop 0 way_segment)"
      by (rule subseq_map_nth_drop[OF ix(3) bnd])
    moreover have "hd (map ((!) way_segment) ix) = hd way_segment"
      using ix(2,4) ne by (simp add: hd_map hd_conv_nth)
    moreover have "last (map ((!) way_segment) ix) = last way_segment"
      using ix(2,5) ne by (simp add: last_map last_conv_nth)
    ultimately show ?thesis using run Inr ix(1) by simp
  qed
qed

text \<open>
  A run that raises: the ends of the chord differ in longitude and are at distance 0,
  and the division by the length of the chord raises \<^verbatim>\<open>ZeroDivisionError\<close>.
\<close>

lemma douglas_peucker_raises:
  "douglas_peucker polar_geo bend_segment 1 = Some (Inl ZeroDivisionError)"
  by (simp add: bend_segment_def dp_eval_defs upt_1_2 distance_point_line_def
      distance_point_to_line_def line_segment_unit_def have_same_coords_def TOLERANCE_def
      polar_geo_def planar_geo_def Node_def)

theorem douglas_peucker_terminates_subsequence_witness:
  "2 \<le> length bend_segment \<and> (0 :: real) < 1 \<and>
   douglas_peucker planar_geo bend_segment 1 = Some (Inr bend_segment) \<and>
   subseq bend_segment bend_segment \<and> hd bend_segment = hd bend_segment \<and>
   last bend_segment = last bend_segment"
  using douglas_peucker_terminates_subsequence[of bend_segment 1 planar_geo]
    bend_run_small[of 1]
  by (simp add: bend_segment_def)

theorem douglas_peucker_tolerance_zero_counterexample:
  "douglas_peucker planar_geo short_segment 0 = None"
  by (rule douglas_peucker_two_nodes_diverges) (simp_all add: short_segment_def)




text \<open>
  The two cases the statement leaves out. On a north-south chord \<^verbatim>\<open>have_same_coords\<close>
  takes the ends of the chord for one point, and the distance of the middle node is
  measured from the end of the chord instead: it is kept with a tolerance of twice its
  deviation. And a node before the start of the chord is measured from that start,
  whatever its distance from the line through the chord.
\<close>

lemma sqrt_26_ge_2: "2 \<le> sqrt 26"
  by (rule real_le_rsqrt) simp

lemma meridian_deviation:
  "chord_deviation planar_geo (Node 1 0 0 [] []) (Node 3 0 10 [] []) (Node 2 1 5 [] []) = 1"
proof -
  have "sqrt 100 = 10" by (rule real_sqrt_unique) simp_all
  then show ?thesis
    by (simp add: chord_deviation_def planar_geo_def get_x_utm_def get_y_utm_def Node_def Let_def)
qed

lemma meridian_distance:
  "distance_point_line planar_geo (Node 1 0 0 [] []) (Node 3 0 10 [] []) (Node 2 1 5 [] []) = Inr (sqrt 26)"
  by (simp add: distance_point_line_def distance_point_to_line_def line_segment_unit_def
      have_same_coords_def TOLERANCE_def inv_distance_or_zero_def planar_geo_def get_x_utm_def
      get_y_utm_def Node_def Let_def)

lemma meridian_chord_kept:
  "douglas_peucker planar_geo meridian_segment 2 = Some (Inr meridian_segment)"
  using sqrt_26_ge_2
  by (simp add: meridian_segment_def dp_eval_defs upt_1_2 meridian_distance)

lemma overshoot_deviation:
  "line_deviation planar_geo (Node 1 0 0 [] []) (Node 3 8 0 [] []) (Node 2 (- 3) 0 [] []) = 0"
  by (simp add: line_deviation_def planar_geo_def get_x_utm_def get_y_utm_def Node_def Let_def)

lemma overshoot_distance:
  "distance_point_line planar_geo (Node 1 0 0 [] []) (Node 3 8 0 [] []) (Node 2 (- 3) 0 [] []) = Inr 3"
  using planar_distance_point_line[OF planar_planar_geo, of "Node 1 0 0 [] []" "Node 3 8 0 [] []"
      "Node 2 (- 3) 0 [] []"]
  by (simp add: chord_deviation_def planar_geo_def get_x_utm_def get_y_utm_def Node_def Let_def
      sqrt_64 sqrt_9 TOLERANCE_def)

lemma overshoot_point_kept:
  "douglas_peucker planar_geo overshoot_segment 1 = Some (Inr overshoot_segment)"
  by (simp add: overshoot_segment_def dp_eval_defs upt_1_2 overshoot_distance)

section \<open>Properties of the geometry kernel\<close>

lemma have_same_coords_lon_only:
  "have_same_coords (Some p1) (Some p2) tol \<longleftrightarrow> \<bar>lon p1 - lon p2\<bar> \<le> tol \<and> 0 \<le> tol"
  by (simp add: have_same_coords_def)

text \<open>
  Claim C2 asks that \<^verbatim>\<open>distance_points\<close> returns \<open>(0, 0, 0)\<close> when \<^verbatim>\<open>GEOD.inv\<close> fails
  with \<^verbatim>\<open>ValueError\<close>. The handler's own statement raises \<^verbatim>\<open>TypeError\<close>: whenever the
  geodesic computation raises \<^verbatim>\<open>ValueError\<close>, \<^verbatim>\<open>distance_points\<close> raises \<^verbatim>\<open>TypeError\<close>
  and returns nothing.
\<close>

theorem distance_points_degenerate:
  "distance_points (g\<lparr>geod_inv := \<lambda>lon1 lat1 lon2 lat2. Inl ValueError\<rparr>) point1 point2 = Inl TypeError \<and>
   distance_points (g\<lparr>geod_inv := \<lambda>lon1 lat1 lon2 lat2. Inl ValueError\<rparr>) point1 point2 \<noteq> Inr (0, 0, 0)"
  by (simp add: distance_points_def unpack3_float_def)

section \<open>Properties of id allocation\<close>

lemma min4: "(a::int) \<le> b \<Longrightarrow> c \<le> d \<Longrightarrow> Min (set [a, b, c, d]) = min a c"
  by simp

lemma min6: "(a::int) \<le> b \<Longrightarrow> c \<le> d \<Longrightarrow> e \<le> f \<Longrightarrow> Min (set [a, b, c, d, e, f]) = min (min a c) e"
  by simp

lemma find_new_key_unfold:
  assumes "node_avl st \<noteq> []" and "way_avl st \<noteq> []"
  shows "find_new_key st =
    (let keys = (if relations st = []
                 then [Min (node_id ` set (node_avl st)), Max (node_id ` set (node_avl st)),
                       Min (way_id ` set (way_avl st)), Max (way_id ` set (way_avl st))]
                 else [Min (node_id ` set (node_avl st)), Max (node_id ` set (node_avl st)),
                       Min (way_id ` set (way_avl st)), Max (way_id ` set (way_avl st)),
                       Min (fst ` set (relations st)), Max (fst ` set (relations st))])
     in if Min (set keys) \<ge> 0 then Inr (- 1) else Inr (Min (set keys) - 1))"
  unfolding find_new_key_def avl_min_key_def avl_max_key_def using assms by simp

lemma find_new_key_value:
  assumes "node_avl st \<noteq> []" and "way_avl st \<noteq> []"
  shows "find_new_key st = Inr (if 0 \<le> Min (existing_ids st) then - 1 else Min (existing_ids st) - 1)"
proof -
  let ?A = "node_id ` set (node_avl st)" and ?B = "way_id ` set (way_avl st)"
  let ?R = "fst ` set (relations st)"
  have fin: "finite ?A" "finite ?B" "finite ?R" by simp_all
  have ne: "?A \<noteq> {}" "?B \<noteq> {}" using assms by simp_all
  have mm: "Min ?A \<le> Max ?A" "Min ?B \<le> Max ?B" using fin ne by simp_all
  have AB: "Min (?A \<union> ?B) = min (Min ?A) (Min ?B)" by (rule Min_Un[OF fin(1) ne(1) fin(2) ne(2)])
  show ?thesis
  proof (cases "relations st = []")
    case True
    then have "existing_ids st = ?A \<union> ?B" by (simp add: existing_ids_def)
    with AB have e: "Min (set [Min ?A, Max ?A, Min ?B, Max ?B]) = Min (existing_ids st)"
      by (simp only: min4[OF mm])
    have "find_new_key st =
       (if Min (set [Min ?A, Max ?A, Min ?B, Max ?B]) \<ge> 0 then Inr (- 1)
        else Inr (Min (set [Min ?A, Max ?A, Min ?B, Max ?B]) - 1))"
      unfolding find_new_key_unfold[OF assms] Let_def using True by (simp only: simp_thms if_True)
    then show ?thesis unfolding e by (simp only: if_distrib[of Inr])
  next
    case False
    then have neR: "?R \<noteq> {}" by simp
    have mR: "Min ?R \<le> Max ?R" using fin neR by simp
    have "?A \<union> ?B \<noteq> {}" using ne by simp
    then have "Min ((?A \<union> ?B) \<union> ?R) = min (Min (?A \<union> ?B)) (Min ?R)"
      using fin neR by (intro Min_Un) simp_all
    then have "Min (existing_ids st) = min (min (Min ?A) (Min ?B)) (Min ?R)"
      unfolding existing_ids_def AB .
    then have e: "Min (set [Min ?A, Max ?A, Min ?B, Max ?B, Min ?R, Max ?R]) = Min (existing_ids st)"
      by (simp only: min6[OF mm mR])
    have "find_new_key st =
       (if Min (set [Min ?A, Max ?A, Min ?B, Max ?B, Min ?R, Max ?R]) \<ge> 0 then Inr (- 1)
        else Inr (Min (set [Min ?A, Max ?A, Min ?B, Max ?B, Min ?R, Max ?R]) - 1))"
      unfolding find_new_key_unfold[OF assms] Let_def using False by (simp only: simp_thms if_False)
    then show ?thesis unfolding e by (simp only: if_distrib[of Inr])
  qed
qed

lemma find_new_key_fresh:
  assumes "find_new_key st = Inr k"
  shows "k \<notin> existing_ids st \<and> k < 0 \<and> (\<forall>i \<in> existing_ids st. k < i)"
proof -
  from assms have ne: "node_avl st \<noteq> []" "way_avl st \<noteq> []"
    by (auto simp: find_new_key_def avl_min_key_def avl_max_key_def split: if_splits)
  have fin: "finite (existing_ids st)" by (simp add: existing_ids_def)
  have nonempty: "existing_ids st \<noteq> {}" using ne by (simp add: existing_ids_def)
  from find_new_key_value[OF ne] assms
  have k: "k = (if 0 \<le> Min (existing_ids st) then - 1 else Min (existing_ids st) - 1)" by simp
  have "\<forall>i \<in> existing_ids st. k < i"
  proof
    fix i assume "i \<in> existing_ids st"
    then have "Min (existing_ids st) \<le> i" using fin by simp
    then show "k < i" using k by (auto split: if_splits)
  qed
  moreover have "k < 0" using k by (auto split: if_splits)
  ultimately show ?thesis by auto
qed

lemma find_new_key_after:
  assumes "find_new_key st = Inr k"
    and "existing_ids st' = insert k (existing_ids st)"
    and "node_avl st' \<noteq> []" "way_avl st' \<noteq> []"
  shows "find_new_key st' = Inr (k - 1)"
proof -
  from find_new_key_fresh[OF assms(1)] have k: "k < 0" "\<forall>i \<in> existing_ids st. k < i" by auto
  have fin: "finite (existing_ids st)" by (simp add: existing_ids_def)
  have "Min (insert k (existing_ids st)) = k"
    using fin k(2) by (intro Min_eqI) (auto simp: less_imp_le)
  then show ?thesis
    using find_new_key_value[OF assms(3,4)] assms(2) k(1) by simp
qed

lemma avl_insert_keys: "key ` set (avl_insert key x t) = insert (key x) (key ` set t)"
  by (auto simp: avl_insert_def image_iff)

lemma avl_insert_nonempty: "avl_insert key x t \<noteq> []"
  by (auto simp: avl_insert_def)

lemma insert_new_node_next:
  assumes "insert_new_node st lat0 lon0 tags attr = (Inr k, st')"
  shows "find_new_key st = Inr k \<and> find_new_key st' = Inr (k - 1)"
proof -
  from assms have fk: "find_new_key st = Inr k"
    and st': "st' = st\<lparr>node_avl := avl_insert node_id (Node k lon0 lat0 tags (setdefault ''version'' ''1'' attr)) (node_avl st)\<rparr>"
    by (auto simp: insert_new_node_def Let_def split: sum.splits)
  from fk have ne: "way_avl st \<noteq> []"
    by (auto simp: find_new_key_def avl_min_key_def avl_max_key_def split: if_splits)
  have ids: "existing_ids st' = insert k (existing_ids st)"
    by (simp add: st' existing_ids_def avl_insert_keys Node_def)
  show ?thesis
    using find_new_key_after[OF fk ids] fk ne by (simp add: st' avl_insert_nonempty)
qed

lemma same_but_neighbours_refl: "same_but_neighbours st st"
  by (simp add: same_but_neighbours_def)

lemma same_but_neighbours_upd:
  assumes "same_but_neighbours st st'"
  shows "same_but_neighbours st (upd_node k (\<lambda>n. n\<lparr>neighbours := f n\<rparr>) st')"
proof -
  have "(\<lambda>n. (if node_id n = k then n\<lparr>neighbours := f n\<rparr> else n)\<lparr>neighbours := []\<rparr>)
      = (\<lambda>n. n\<lparr>neighbours := []\<rparr>)"
    by (rule ext) simp
  with assms show ?thesis
    by (simp add: same_but_neighbours_def upd_node_def comp_def)
qed

lemma avl_get_strip:
  assumes "map (\<lambda>n. n\<lparr>neighbours := []\<rparr>) xs' = map (\<lambda>n. n\<lparr>neighbours := []\<rparr>) xs"
  shows "map_option (\<lambda>n. n\<lparr>neighbours := []\<rparr>) (avl_get node_id xs' k)
       = map_option (\<lambda>n. n\<lparr>neighbours := []\<rparr>) (avl_get node_id xs k)"
proof -
  have "find (\<lambda>m. node_id m = k) (map (\<lambda>n. n\<lparr>neighbours := []\<rparr>) ys)
      = map_option (\<lambda>n. n\<lparr>neighbours := []\<rparr>) (find (\<lambda>n. node_id n = k) ys)" for ys
    by (induction ys) simp_all
  from this[of xs'] this[of xs] assms show ?thesis by (simp add: avl_get_def)
qed

lemma same_but_neighbours_node:
  assumes "same_but_neighbours st st'" and "the_node st' k = Inr n'"
  shows "\<exists>n. the_node st k = Inr n \<and> node_id n' = node_id n \<and> n_partition_id n' = n_partition_id n
             \<and> lon n' = lon n \<and> lat n' = lat n \<and> n_tags n' = n_tags n"
proof -
  from assms(1) have "map_option (\<lambda>n. n\<lparr>neighbours := []\<rparr>) (avl_get node_id (node_avl st') k)
       = map_option (\<lambda>n. n\<lparr>neighbours := []\<rparr>) (avl_get node_id (node_avl st) k)"
    unfolding same_but_neighbours_def by (intro avl_get_strip) simp
  with assms(2) obtain n where n: "avl_get node_id (node_avl st) k = Some n"
    "n'\<lparr>neighbours := []\<rparr> = n\<lparr>neighbours := []\<rparr>"
    by (cases "avl_get node_id (node_avl st) k") (auto simp: the_node_def split: option.splits)
  from n(2) have "node_id n' = node_id n \<and> n_partition_id n' = n_partition_id n
             \<and> lon n' = lon n \<and> lat n' = lat n \<and> n_tags n' = n_tags n"
    by (cases n, cases n') simp
  with n(1) show ?thesis by (simp add: the_node_def)
qed

lemma way_init_loop_result:
  "way_init_loop tags ids (bx, objs, l) st = (r, st') \<Longrightarrow>
     same_but_neighbours st st' \<and> (\<forall>bx' objs' l'. r = Inr (bx', objs', l') \<longrightarrow> objs' = objs @ ids)"
proof (induction ids arbitrary: bx objs l st)
  case Nil
  then show ?case by (auto simp: same_but_neighbours_refl)
next
  case (Cons i ids)
  show ?case
  proof (cases "avl_get node_id (node_avl st) i")
    case None
    with Cons.prems show ?thesis by (cases bx) (auto simp: same_but_neighbours_refl)
  next
    case (Some osm_node)
    obtain a b c d where bx: "bx = (a, b, c, d)" by (cases bx) auto
    let ?st1 = "(case l of
                        Some l \<Rightarrow>
                          if map_of tags ''highway'' \<noteq> None then
                            upd_node l (\<lambda>n. n\<lparr>neighbours := neighbours n @ [i]\<rparr>)
                              (upd_node i (\<lambda>n. n\<lparr>neighbours := neighbours n @ [l]\<rparr>) st)
                          else st
                      | None \<Rightarrow> st)"
    have s1: "same_but_neighbours st ?st1"
      by (auto split: option.splits intro!: same_but_neighbours_upd same_but_neighbours_refl)
    from Cons.prems Some bx obtain bx1 where
      run: "way_init_loop tags ids (bx1, objs @ [i], Some i) ?st1 = (r, st')"
      by (auto simp: Let_def)
    from Cons.IH[OF run] have "same_but_neighbours ?st1 st'"
      and "\<forall>bx' objs' l'. r = Inr (bx', objs', l') \<longrightarrow> objs' = (objs @ [i]) @ ids" by auto
    moreover from s1 \<open>same_but_neighbours ?st1 st'\<close> have "same_but_neighbours st st'"
      unfolding same_but_neighbours_def by simp
    ultimately show ?thesis by simp
  qed
qed

lemmas eval_defs = connect_by_node_def the_node_def the_way_def avl_get_def append_new_street_def
  find_new_key_def avl_min_key_def avl_max_key_def Way_def upd_node_def upd_way_def avl_insert_def
  setdefault_def Node_def Let_def residential_way_def main_street_way_def poi_node_100_def

lemma example_find_new_key: "find_new_key example_osm = Inr (- 1)"
  by (simp add: example_osm_def eval_defs)

lemma avl_get_insert: "avl_get key (avl_insert key x t) (key x) = Some x"
proof (cases "key x \<in> key ` set t")
  case True
  have "find (\<lambda>y. key y = key x) (map (\<lambda>y. if key y = key x then x else y) ys) = Some x"
    if "key x \<in> key ` set ys" for ys
    using that by (induction ys) auto
  with True show ?thesis by (simp add: avl_get_def avl_insert_def)
next
  case False
  have "find (\<lambda>y. key y = key x) (ys @ [x]) = Some x" if "key x \<notin> key ` set ys" for ys
    using that by (induction ys) auto
  with False show ?thesis by (simp add: avl_get_def avl_insert_def)
qed

lemma avl_get_map_upd:
  assumes "\<And>y. key (f y) = key y"
  shows "avl_get key (map (\<lambda>y. if key y = k then f y else y) t) k' =
         (if k' = k then map_option f (avl_get key t k') else avl_get key t k')"
  unfolding avl_get_def using assms by (induction t) auto

lemma avl_get_key: "avl_get key t k = Some x \<Longrightarrow> key x = k"
  unfolding avl_get_def by (induction t) (auto split: if_splits)

lemma avl_get_None: "k \<notin> key ` set t \<Longrightarrow> avl_get key t k = None"
  unfolding avl_get_def by (induction t) auto

lemma same_but_neighbours_ids:
  assumes "same_but_neighbours st st'"
  shows "existing_ids st' = existing_ids st" and "(node_avl st' = []) = (node_avl st = [])"
proof -
  from assms have eq: "map (\<lambda>n. n\<lparr>neighbours := []\<rparr>) (node_avl st') = map (\<lambda>n. n\<lparr>neighbours := []\<rparr>) (node_avl st)"
    and rest: "way_avl st' = way_avl st" "relations st' = relations st"
    by (simp_all add: same_but_neighbours_def)
  from eq have "map node_id (map (\<lambda>n. n\<lparr>neighbours := []\<rparr>) (node_avl st'))
              = map node_id (map (\<lambda>n. n\<lparr>neighbours := []\<rparr>) (node_avl st))" by simp
  then have "map node_id (node_avl st') = map node_id (node_avl st)" by (simp add: comp_def)
  then have "set (map node_id (node_avl st')) = set (map node_id (node_avl st))" by simp
  then show "existing_ids st' = existing_ids st" using rest by (simp add: existing_ids_def)
  from eq have "length (node_avl st') = length (node_avl st)" by (metis length_map)
  then show "(node_avl st' = []) = (node_avl st = [])" by auto
qed

lemma append_new_street_parts:
  assumes "append_new_street st tags ids attr = (Inr k, st')"
  shows "\<exists>bx st0. find_new_key st = Inr k \<and> same_but_neighbours st st0 \<and>
           st' = st0\<lparr>street_tree := street_tree st0 @ [(k, bx)],
                     way_avl := avl_insert way_id
                       \<lparr>way_id = k, nodeIDs = ids, w_tags = tags,
                        w_attr = setdefault ''version'' ''1'' attr,
                        nodes = ids, w_partition_id = 0, w_filtered = False, generalized = [],
                        box = bx\<rparr> (way_avl st0)\<rparr>"
proof -
  from assms have fk: "find_new_key st = Inr k"
    by (auto simp: append_new_street_def split: sum.splits prod.splits)
  with assms obtain w st0 where W: "Way k ids tags (setdefault ''version'' ''1'' attr) st = (Inr w, st0)"
    and st': "st' = st0\<lparr>street_tree := street_tree st0 @ [(k, box w)],
                     way_avl := avl_insert way_id w (way_avl st0)\<rparr>"
    by (auto simp: append_new_street_def split: sum.splits prod.splits)
  from W obtain bx objs l where loop: "way_init_loop tags ids ((PosInf, PosInf, NegInf, NegInf), [], None) st
        = (Inr (bx, objs, l), st0)"
    and w: "w = \<lparr>way_id = k, nodeIDs = ids, w_tags = tags, w_attr = setdefault ''version'' ''1'' attr,
                nodes = objs, w_partition_id = 0, w_filtered = False, generalized = [], box = bx\<rparr>"
    by (auto simp: Way_def split: sum.splits prod.splits)
  from way_init_loop_result[OF loop] have "same_but_neighbours st st0" "objs = [] @ ids" by blast+
  with fk st' w show ?thesis by (intro exI[of _ bx] exI[of _ st0]) simp
qed

lemma append_new_street_next:
  assumes "append_new_street st tags ids attr = (Inr k, st')"
  shows "find_new_key st = Inr k \<and> find_new_key st' = Inr (k - 1)"
proof -
  from append_new_street_parts[OF assms] obtain bx st0 where
    fk: "find_new_key st = Inr k" and sbn: "same_but_neighbours st st0"
    and st': "st' = st0\<lparr>street_tree := street_tree st0 @ [(k, bx)],
                     way_avl := avl_insert way_id
                       \<lparr>way_id = k, nodeIDs = ids, w_tags = tags,
                        w_attr = setdefault ''version'' ''1'' attr,
                        nodes = ids, w_partition_id = 0, w_filtered = False, generalized = [],
                        box = bx\<rparr> (way_avl st0)\<rparr>"
    by blast
  from fk have ne: "node_avl st \<noteq> []"
    by (auto simp: find_new_key_def avl_min_key_def split: if_splits)
  have ids: "existing_ids st' = insert k (existing_ids st)"
    using same_but_neighbours_ids(1)[OF sbn]
    by (auto simp: st' existing_ids_def avl_insert_keys)
  have "node_avl st' \<noteq> []" using same_but_neighbours_ids(2)[OF sbn] ne by (simp add: st')
  moreover have "way_avl st' \<noteq> []" by (simp add: st' avl_insert_nonempty)
  ultimately show ?thesis using find_new_key_after[OF fk ids] fk by simp
qed

lemma find_new_key_later:
  assumes "find_new_key st = Inr k"
    and "insert k (existing_ids st) \<subseteq> existing_ids st2"
    and "find_new_key st2 = Inr k2"
  shows "k2 < k"
proof -
  from find_new_key_fresh[OF assms(3)] assms(2) show ?thesis by auto
qed

lemma insert_new_node_ids:
  assumes "insert_new_node st lat0 lon0 tags attr = (Inr k, st')"
  shows "existing_ids st' = insert k (existing_ids st)"
proof -
  from assms have st': "st' = st\<lparr>node_avl := avl_insert node_id (Node k lon0 lat0 tags (setdefault ''version'' ''1'' attr)) (node_avl st)\<rparr>"
    by (auto simp: insert_new_node_def Let_def split: sum.splits)
  show ?thesis by (simp add: st' existing_ids_def avl_insert_keys Node_def)
qed

lemma append_new_street_ids:
  assumes "append_new_street st tags ids attr = (Inr k, st')"
  shows "existing_ids st' = insert k (existing_ids st)"
proof -
  from append_new_street_parts[OF assms] obtain bx st0 where
    sbn: "same_but_neighbours st st0"
    and st': "st' = st0\<lparr>street_tree := street_tree st0 @ [(k, bx)],
                     way_avl := avl_insert way_id
                       \<lparr>way_id = k, nodeIDs = ids, w_tags = tags,
                        w_attr = setdefault ''version'' ''1'' attr,
                        nodes = ids, w_partition_id = 0, w_filtered = False, generalized = [],
                        box = bx\<rparr> (way_avl st0)\<rparr>"
    by blast
  show ?thesis
    using same_but_neighbours_ids(1)[OF sbn]
    by (auto simp: st' existing_ids_def avl_insert_keys)
qed

lemma footway_osm_value:
  "append_new_street example_osm [(''highway'', ''footway'')] [100, 1] [] =
     (Inr (- 1),
      example_osm\<lparr>node_avl :=
          [(Node 1 3 0 [] [])\<lparr>neighbours := [2, 100], n_partition_id := 1\<rparr>,
           (Node 2 5 0 [] [])\<lparr>neighbours := [1], n_partition_id := 1\<rparr>,
           (Node 3 7 0 [] [])\<lparr>neighbours := [4], n_partition_id := 2\<rparr>,
           (Node 4 9 0 [] [])\<lparr>neighbours := [3], n_partition_id := 2\<rparr>,
           poi_node_100\<lparr>neighbours := [1]\<rparr>],
        street_tree := street_tree example_osm @ [(- 1, (Fin 0, Fin 0, Fin 3, Fin 0))],
        way_avl := way_avl example_osm @ [synthetic_footway]\<rparr>)"
  by (simp add: example_osm_def eval_defs synthetic_footway_def)

lemma footway_osm_eq:
  "footway_osm =
      example_osm\<lparr>node_avl :=
          [(Node 1 3 0 [] [])\<lparr>neighbours := [2, 100], n_partition_id := 1\<rparr>,
           (Node 2 5 0 [] [])\<lparr>neighbours := [1], n_partition_id := 1\<rparr>,
           (Node 3 7 0 [] [])\<lparr>neighbours := [4], n_partition_id := 2\<rparr>,
           (Node 4 9 0 [] [])\<lparr>neighbours := [3], n_partition_id := 2\<rparr>,
           poi_node_100\<lparr>neighbours := [1]\<rparr>],
        street_tree := street_tree example_osm @ [(- 1, (Fin 0, Fin 0, Fin 3, Fin 0))],
        way_avl := way_avl example_osm @ [synthetic_footway]\<rparr>"
  unfolding footway_osm_def footway_osm_value by simp

lemma footway_osm_delete:
  "delete_way footway_osm synthetic_footway =
     (Inr (),
      example_osm\<lparr>node_avl :=
          [(Node 1 3 0 [] [])\<lparr>neighbours := [2, 100], n_partition_id := 1\<rparr>,
           (Node 2 5 0 [] [])\<lparr>neighbours := [1], n_partition_id := 1\<rparr>,
           (Node 3 7 0 [] [])\<lparr>neighbours := [4], n_partition_id := 2\<rparr>,
           (Node 4 9 0 [] [])\<lparr>neighbours := [3], n_partition_id := 2\<rparr>,
           poi_node_100\<lparr>neighbours := [1]\<rparr>]\<rparr>)"
  by (simp add: footway_osm_eq delete_way_def avl_remove_def example_osm_def synthetic_footway_def
      residential_way_def main_street_way_def Let_def)

text \<open>
  Claim C8, as the code has it: with at least one node and one way in the store,
  \<^verbatim>\<open>find_new_key\<close> returns \<open>-1\<close> when the least existing node, way or relation id is not
  negative, and that least id minus one otherwise; the id is not in use;
  \<^verbatim>\<open>insert_new_node\<close> and \<^verbatim>\<open>append_new_street\<close> add just this id to the ids of the store,
  and the next id is smaller by one; and in every later state that still holds all
  these ids, the id \<^verbatim>\<open>find_new_key\<close> returns is smaller.
\<close>

theorem find_new_key_fresh_and_decreasing:
  assumes "node_avl st \<noteq> []" and "way_avl st \<noteq> []"
  shows "\<exists>k. find_new_key st = Inr k \<and>
           k = (if 0 \<le> Min (existing_ids st) then - 1 else Min (existing_ids st) - 1) \<and>
           k \<notin> existing_ids st \<and>
           (\<forall>lat0 lon0 tags attr r st'. insert_new_node st lat0 lon0 tags attr = (r, st') \<longrightarrow>
               r = Inr k \<and> existing_ids st' = insert k (existing_ids st) \<and>
               find_new_key st' = Inr (k - 1)) \<and>
           (\<forall>tags ids attr k' st'. append_new_street st tags ids attr = (Inr k', st') \<longrightarrow>
               k' = k \<and> existing_ids st' = insert k (existing_ids st) \<and>
               find_new_key st' = Inr (k - 1)) \<and>
           (\<forall>st2 k2. insert k (existing_ids st) \<subseteq> existing_ids st2 \<and> find_new_key st2 = Inr k2 \<longrightarrow>
               k2 < k)"
proof -
  let ?k = "if 0 \<le> Min (existing_ids st) then - 1 else Min (existing_ids st) - 1"
  have fk: "find_new_key st = Inr ?k" by (rule find_new_key_value[OF assms])
  have fresh: "?k \<notin> existing_ids st" using find_new_key_fresh[OF fk] by blast
  have ins: "r = Inr ?k \<and> existing_ids st' = insert ?k (existing_ids st) \<and>
      find_new_key st' = Inr (?k - 1)"
    if "insert_new_node st lat0 lon0 tags attr = (r, st')" for lat0 lon0 tags attr r st'
  proof -
    from that fk have "r = Inr ?k" by (auto simp: insert_new_node_def Let_def)
    with that insert_new_node_next[of st lat0 lon0 tags attr ?k st']
      insert_new_node_ids[of st lat0 lon0 tags attr ?k st'] show ?thesis by simp
  qed
  have app: "k' = ?k \<and> existing_ids st' = insert ?k (existing_ids st) \<and>
      find_new_key st' = Inr (?k - 1)"
    if "append_new_street st tags ids attr = (Inr k', st')" for tags ids attr k' st'
    using append_new_street_next[OF that] append_new_street_ids[OF that] fk by auto
  have later: "k2 < ?k"
    if "insert ?k (existing_ids st) \<subseteq> existing_ids st2 \<and> find_new_key st2 = Inr k2" for st2 k2
    using find_new_key_later[OF fk, of st2 k2] that by blast
  from fk fresh ins app later show ?thesis by blast
qed

theorem find_new_key_fresh_and_decreasing_witness:
  "node_avl example_osm \<noteq> [] \<and> way_avl example_osm \<noteq> [] \<and>
   find_new_key example_osm = Inr (- 1) \<and> - 1 \<notin> existing_ids example_osm \<and>
   find_new_key (snd (insert_new_node example_osm 0 0 [] [])) = Inr (- 2) \<and>
   append_new_street example_osm [(''highway'', ''footway'')] [100, 1] [] = (Inr (- 1), footway_osm) \<and>
   existing_ids footway_osm = insert (- 1) (existing_ids example_osm) \<and>
   find_new_key footway_osm = Inr (- 2) \<and>
   find_new_key (snd (insert_new_node footway_osm 0 0 [] [])) = Inr (- 3)"
proof -
  have ne: "node_avl example_osm \<noteq> []" "way_avl example_osm \<noteq> []"
    by (simp_all add: example_osm_def)
  from find_new_key_fresh_and_decreasing[OF ne] obtain k where
    K: "find_new_key example_osm = Inr k \<and>
        k = (if 0 \<le> Min (existing_ids example_osm) then - 1 else Min (existing_ids example_osm) - 1) \<and>
        k \<notin> existing_ids example_osm \<and>
        (\<forall>lat0 lon0 tags attr r st'. insert_new_node example_osm lat0 lon0 tags attr = (r, st') \<longrightarrow>
            r = Inr k \<and> existing_ids st' = insert k (existing_ids example_osm) \<and>
            find_new_key st' = Inr (k - 1)) \<and>
        (\<forall>tags ids attr k' st'. append_new_street example_osm tags ids attr = (Inr k', st') \<longrightarrow>
            k' = k \<and> existing_ids st' = insert k (existing_ids example_osm) \<and>
            find_new_key st' = Inr (k - 1)) \<and>
        (\<forall>st2 k2. insert k (existing_ids example_osm) \<subseteq> existing_ids st2 \<and>
            find_new_key st2 = Inr k2 \<longrightarrow> k2 < k)" ..
  note k = K[THEN conjunct1]
  note fresh = K[THEN conjunct2, THEN conjunct2, THEN conjunct1]
  note ins = K[THEN conjunct2, THEN conjunct2, THEN conjunct2, THEN conjunct1, rule_format]
  note app = K[THEN conjunct2, THEN conjunct2, THEN conjunct2, THEN conjunct2, THEN conjunct1,
      rule_format]
  have k1: "k = - 1" using k by (simp add: example_find_new_key)
  have c1: "find_new_key example_osm = Inr (- 1)" using k k1 by simp
  have c2: "- 1 \<notin> existing_ids example_osm" using fresh k1 by simp
  have c3: "find_new_key (snd (insert_new_node example_osm 0 0 [] [])) = Inr (- 2)"
    using ins[of 0 0 "[]" "[]" "fst (insert_new_node example_osm 0 0 [] [])"
        "snd (insert_new_node example_osm 0 0 [] [])"] k1 by simp
  have c4: "append_new_street example_osm [(''highway'', ''footway'')] [100, 1] [] =
      (Inr (- 1), footway_osm)"
    unfolding footway_osm_value footway_osm_eq by simp
  have c5: "existing_ids footway_osm = insert (- 1) (existing_ids example_osm)"
    using app[OF c4] k1 by simp
  have c6: "find_new_key footway_osm = Inr (- 2)"
    using app[OF c4] k1 by simp
  have c7: "find_new_key (snd (insert_new_node footway_osm 0 0 [] [])) = Inr (- 3)"
    by (simp add: footway_osm_eq example_osm_def insert_new_node_def eval_defs
        synthetic_footway_def)
  show ?thesis by (intro conjI) (fact ne c1 c2 c3 c4 c5 c6 c7)+
qed

theorem find_new_key_after_delete_way_counterexample:
  "append_new_street example_osm [(''highway'', ''footway'')] [100, 1] [] = (Inr (- 1), footway_osm) \<and>
   avl_get way_id (way_avl footway_osm) (- 1) = Some synthetic_footway \<and>
   fst (delete_way footway_osm synthetic_footway) = Inr () \<and>
   find_new_key (snd (delete_way footway_osm synthetic_footway)) = Inr (- 1) \<and>
   fst (append_new_street (snd (delete_way footway_osm synthetic_footway))
          [(''highway'', ''footway'')] [100, 1] []) = Inr (- 1)"
proof -
  have "append_new_street example_osm [(''highway'', ''footway'')] [100, 1] [] =
      (Inr (- 1), footway_osm)"
    unfolding footway_osm_value footway_osm_eq by simp
  moreover have "avl_get way_id (way_avl footway_osm) (- 1) = Some synthetic_footway"
    by (simp add: footway_osm_eq example_osm_def avl_get_def residential_way_def
        main_street_way_def synthetic_footway_def)
  moreover have "find_new_key (snd (delete_way footway_osm synthetic_footway)) = Inr (- 1)"
    unfolding footway_osm_delete by (simp add: example_osm_def eval_defs)
  moreover have "fst (append_new_street (snd (delete_way footway_osm synthetic_footway))
          [(''highway'', ''footway'')] [100, 1] []) = Inr (- 1)"
    unfolding footway_osm_delete by (simp add: example_osm_def eval_defs)
  ultimately show ?thesis by (simp add: footway_osm_delete)
qed

section \<open>Properties of connecting nodes\<close>

lemma same_but_neighbours_sym: "same_but_neighbours st st' \<Longrightarrow> same_but_neighbours st' st"
  by (simp add: same_but_neighbours_def)

lemma the_node_upd_way: "the_node (upd_way k f st) j = the_node st j"
  by (simp add: the_node_def upd_way_def)

lemma the_node_upd_node:
  assumes "\<And>y. node_id (f y) = node_id y"
  shows "the_node (upd_node k f st) j =
     (if j = k then (case the_node st j of Inl e \<Rightarrow> Inl e | Inr n \<Rightarrow> Inr (f n)) else the_node st j)"
  using avl_get_map_upd[of node_id f k "node_avl st" j, OF assms]
  by (auto simp: the_node_def upd_node_def split: option.splits)

lemma get_way_upd_way:
  assumes "\<And>y. way_id (f y) = way_id y"
  shows "avl_get way_id (way_avl (upd_way k f st)) k = map_option f (avl_get way_id (way_avl st) k)"
  using avl_get_map_upd[of way_id f k "way_avl st" k, OF assms] by (simp add: upd_way_def)

lemma the_node_id: "the_node st k = Inr n \<Longrightarrow> node_id n = k"
  by (auto simp: the_node_def dest: avl_get_key split: option.splits)

text \<open>
  Claim C4, as the code has it: after a successful \<^verbatim>\<open>connect_by_node(osm_object, a, b)\<close>
  a new way tagged \<^verbatim>\<open>highway=footway\<close> with node list \<open>[a, b]\<close> is in the graph; the way
  and \<open>a\<close> carry the partition id \<open>a\<close> had before when that was positive, and the one
  of \<open>b\<close> otherwise; the partition id of \<open>b\<close> is unchanged. So \<open>a\<close> and \<open>b\<close> share
  a partition id afterwards when the id of \<open>a\<close> was not positive before.
\<close>

theorem connect_by_node_creates_footway:
  assumes "connect_by_node st a b = (Inr new_street, st')"
  shows "\<exists>w na nb na' nb'.
     avl_get way_id (way_avl st) new_street = None \<and>
     avl_get way_id (way_avl st') new_street = Some w \<and>
     w_tags w = [(''highway'', ''footway'')] \<and> nodeIDs w = [a, b] \<and> nodes w = [a, b] \<and>
     new_street \<in> fst ` set (street_tree st') \<and>
     the_node st a = Inr na \<and> the_node st b = Inr nb \<and>
     the_node st' a = Inr na' \<and> the_node st' b = Inr nb' \<and>
     w_partition_id w = (if 0 < n_partition_id na then n_partition_id na else n_partition_id nb) \<and>
     n_partition_id na' = w_partition_id w \<and>
     n_partition_id nb' = n_partition_id nb"
proof -
  from assms obtain n sn where n: "the_node st a = Inr n" and sn: "the_node st b = Inr sn"
    by (auto simp: connect_by_node_def split: sum.splits)
  have ids: "node_id n = a" "node_id sn = b" using n sn by (auto dest: the_node_id)
  from assms n sn ids obtain st1 where
    app: "append_new_street st [(''highway'', ''footway'')] [a, b] [(''visible'', ''true'')]
            = (Inr new_street, st1)"
    by (auto simp: connect_by_node_def split: sum.splits prod.splits if_splits)
  from append_new_street_parts[OF app] obtain bx st0 where
    fk: "find_new_key st = Inr new_street" and sbn: "same_but_neighbours st st0"
    and st1: "st1 = st0\<lparr>street_tree := street_tree st0 @ [(new_street, bx)],
                     way_avl := avl_insert way_id
                       \<lparr>way_id = new_street, nodeIDs = [a, b], w_tags = [(''highway'', ''footway'')],
                        w_attr = setdefault ''version'' ''1'' [(''visible'', ''true'')],
                        nodes = [a, b], w_partition_id = 0, w_filtered = False, generalized = [],
                        box = bx\<rparr> (way_avl st0)\<rparr>"
    by blast
  define w0 where "w0 = \<lparr>way_id = new_street, nodeIDs = [a, b], w_tags = [(''highway'', ''footway'')],
                        w_attr = setdefault ''version'' ''1'' [(''visible'', ''true'')],
                        nodes = [a, b], w_partition_id = 0, w_filtered = False, generalized = [],
                        box = bx\<rparr>"
  have st1': "st1 = st0\<lparr>street_tree := street_tree st0 @ [(new_street, bx)],
                     way_avl := avl_insert way_id w0 (way_avl st0)\<rparr>"
    using st1 by (simp add: w0_def)
  have w0id: "way_id w0 = new_street" by (simp add: w0_def)
  have get1: "avl_get way_id (way_avl st1) new_street = Some w0"
    using avl_get_insert[of way_id w0 "way_avl st0"] by (simp add: st1' w0id)
  have node1: "the_node st1 k = the_node st0 k" for k by (simp add: the_node_def st1')
  have tree1: "new_street \<in> fst ` set (street_tree st1)" by (simp add: st1')
  have fresh: "avl_get way_id (way_avl st) new_street = None"
    using find_new_key_fresh[OF fk] by (intro avl_get_None) (auto simp: existing_ids_def)
  from same_but_neighbours_node[OF same_but_neighbours_sym[OF sbn], of a n] n
  obtain n1 where n1: "the_node st1 a = Inr n1" "n_partition_id n1 = n_partition_id n"
    by (auto simp: node1)
  from same_but_neighbours_node[OF same_but_neighbours_sym[OF sbn], of b sn] sn
  obtain sn1 where sn1: "the_node st1 b = Inr sn1" "n_partition_id sn1 = n_partition_id sn"
    by (auto simp: node1)
  from assms n sn ids app n1 sn1 have st': "st' =
      (if 0 < n_partition_id n
       then upd_way new_street (\<lambda>w. w\<lparr>w_partition_id := n_partition_id n\<rparr>) st1
       else upd_node a (\<lambda>x. x\<lparr>n_partition_id := n_partition_id sn\<rparr>)
              (upd_way new_street (\<lambda>w. w\<lparr>w_partition_id := n_partition_id sn\<rparr>) st1))"
    by (auto simp: connect_by_node_def)
  show ?thesis
  proof (cases "0 < n_partition_id n")
    case True
    let ?w = "w0\<lparr>w_partition_id := n_partition_id n\<rparr>"
    from True st' have s: "st' = upd_way new_street (\<lambda>w. w\<lparr>w_partition_id := n_partition_id n\<rparr>) st1"
      by simp
    have "avl_get way_id (way_avl st') new_street = Some ?w"
      unfolding s by (subst get_way_upd_way) (simp_all add: get1)
    moreover have "new_street \<in> fst ` set (street_tree st')" using tree1 by (simp add: s upd_way_def)
    moreover have "the_node st' a = Inr n1" "the_node st' b = Inr sn1"
      using n1 sn1 by (simp_all add: s the_node_upd_way)
    ultimately show ?thesis
      using fresh n sn n1(2) sn1(2) True
      by (intro exI[of _ ?w] exI[of _ n] exI[of _ sn] exI[of _ n1] exI[of _ sn1]) (simp add: w0_def)
  next
    case False
    let ?w = "w0\<lparr>w_partition_id := n_partition_id sn\<rparr>"
    let ?mid = "upd_way new_street (\<lambda>w. w\<lparr>w_partition_id := n_partition_id sn\<rparr>) st1"
    let ?f = "\<lambda>x. x\<lparr>n_partition_id := n_partition_id sn\<rparr>"
    from False st' have s: "st' = upd_node a ?f ?mid" by simp
    have "avl_get way_id (way_avl ?mid) new_street = Some ?w"
      by (subst get_way_upd_way) (simp_all add: get1)
    then have gw: "avl_get way_id (way_avl st') new_street = Some ?w" by (simp add: s upd_node_def)
    have tr: "new_street \<in> fst ` set (street_tree st')"
      using tree1 by (simp add: s upd_way_def upd_node_def)
    have na': "the_node st' a = Inr (?f n1)"
      unfolding s by (subst the_node_upd_node) (simp_all add: the_node_upd_way n1)
    have nb': "the_node st' b = Inr (if b = a then ?f sn1 else sn1)"
      unfolding s using sn1(1) n1(1) by (subst the_node_upd_node) (auto simp: the_node_upd_way)
    show ?thesis
      using fresh gw tr n sn na' nb' sn1(2) False
      by (intro exI[of _ ?w] exI[of _ n] exI[of _ sn] exI[of _ "?f n1"]
            exI[of _ "if b = a then ?f sn1 else sn1"]) (simp add: w0_def)
  qed
qed

theorem connect_by_node_creates_footway_witness:
  "fst (connect_by_node example_osm 100 1) = Inr (- 1) \<and>
   (\<exists>w na' nb'.
     avl_get way_id (way_avl example_osm) (- 1) = None \<and>
     avl_get way_id (way_avl (snd (connect_by_node example_osm 100 1))) (- 1) = Some w \<and>
     w_tags w = [(''highway'', ''footway'')] \<and> nodeIDs w = [100, 1] \<and> nodes w = [100, 1] \<and>
     the_node (snd (connect_by_node example_osm 100 1)) 100 = Inr na' \<and>
     the_node (snd (connect_by_node example_osm 100 1)) 1 = Inr nb' \<and>
     w_partition_id w = 1 \<and> n_partition_id na' = 1 \<and> n_partition_id nb' = 1)"
proof -
  have f: "fst (connect_by_node example_osm 100 1) = Inr (- 1)"
    by (simp add: example_osm_def eval_defs)
  then have run: "connect_by_node example_osm 100 1 = (Inr (- 1), snd (connect_by_node example_osm 100 1))"
    by (metis prod.collapse)
  have a: "the_node example_osm 100 = Inr poi_node_100"
    and b: "the_node example_osm 1 = Inr ((Node 1 3 0 [] [])\<lparr>neighbours := [2], n_partition_id := 1\<rparr>)"
    by (simp_all add: example_osm_def eval_defs)
  from connect_by_node_creates_footway[OF run] obtain w na nb na' nb' where
    r: "avl_get way_id (way_avl example_osm) (- 1) = None"
     "avl_get way_id (way_avl (snd (connect_by_node example_osm 100 1))) (- 1) = Some w"
     "w_tags w = [(''highway'', ''footway'')]" "nodeIDs w = [100, 1]" "nodes w = [100, 1]"
     "the_node example_osm 100 = Inr na" "the_node example_osm 1 = Inr nb"
     "the_node (snd (connect_by_node example_osm 100 1)) 100 = Inr na'"
     "the_node (snd (connect_by_node example_osm 100 1)) 1 = Inr nb'"
     "w_partition_id w = (if 0 < n_partition_id na then n_partition_id na else n_partition_id nb)"
     "n_partition_id na' = w_partition_id w" "n_partition_id nb' = n_partition_id nb"
    by blast
  from r(6,7) a b have "n_partition_id na = 0" "n_partition_id nb = 1"
    by (auto simp: poi_node_100_def Node_def)
  with r have "w_partition_id w = 1" "n_partition_id na' = 1" "n_partition_id nb' = 1" by simp_all
  with f r(1-5,8,9) show ?thesis by blast
qed

text \<open>
  Connecting node 1 (partition 1) with node 3 (partition 2) succeeds and leaves the two
  nodes in different partitions.
\<close>

theorem connect_by_node_keeps_second_partition_counterexample:
  "fst (connect_by_node example_osm 1 3) = Inr (- 1) \<and>
   map_option n_partition_id (avl_get node_id (node_avl (snd (connect_by_node example_osm 1 3))) 1) = Some 1 \<and>
   map_option n_partition_id (avl_get node_id (node_avl (snd (connect_by_node example_osm 1 3))) 3) = Some 2"
  by (simp add: example_osm_def eval_defs)

text \<open>
  Claim C9: for a street that is not \<^verbatim>\<open>None\<close> and a distance mode of length 1,
  \<^verbatim>\<open>connect_by_projection\<close> raises \<^verbatim>\<open>TypeError\<close> (the call of \<^verbatim>\<open>connect_by_node\<close> lacks an
  argument) and leaves the data representation as it was: no way and no node is added.
\<close>

theorem connect_by_projection_single_mode_raises:
  assumes "length mode = 1"
  shows "connect_by_projection g st nd (Some street) (Some mode) = (Inl TypeError, st)"
  using assms by (simp add: connect_by_projection_def call_connect_by_node_def)

theorem connect_by_projection_single_mode_raises_witness:
  "length [MNode 1] = 1 \<and>
   connect_by_projection example_geo example_osm 100 (Some 10) (Some [MNode 1]) = (Inl TypeError, example_osm)"
  using connect_by_projection_single_mode_raises[of "[MNode 1]" example_geo example_osm 100 10] by simp

text \<open>
  Claim C10: for a way whose first and last node id differ, \<^verbatim>\<open>is_inside_polygon\<close>
  returns \<^verbatim>\<open>False\<close> for every node without raising, and \<^verbatim>\<open>connect_by_building\<close> through
  such a way returns \<^verbatim>\<open>False\<close> and changes nothing.
\<close>

theorem open_way_is_never_inside:
  assumes "nodeIDs w \<noteq> []" and "hd (nodeIDs w) \<noteq> last (nodeIDs w)"
    and "avl_get way_id (way_avl st) building = Some w"
  shows "is_inside_polygon g st nd w = Inr False \<and>
         connect_by_building g st poi_node (Some building) streets projection_threshold address_threshold
           = (Inr None, st)"
  using assms by (simp add: is_inside_polygon_def is_area_def connect_by_building_def is_building_def)

theorem open_way_is_never_inside_witness:
  "nodeIDs residential_way \<noteq> [] \<and> hd (nodeIDs residential_way) \<noteq> last (nodeIDs residential_way) \<and>
   avl_get way_id (way_avl example_osm) 10 = Some residential_way \<and>
   is_inside_polygon example_geo example_osm poi_node_100 residential_way = Inr False \<and>
   connect_by_building example_geo example_osm 100 (Some 10) [10, 11] 5 5 = (Inr None, example_osm)"
proof -
  have h: "nodeIDs residential_way \<noteq> []" "hd (nodeIDs residential_way) \<noteq> last (nodeIDs residential_way)"
    "avl_get way_id (way_avl example_osm) 10 = Some residential_way"
    by (simp_all add: residential_way_def example_osm_def avl_get_def)
  from open_way_is_never_inside[OF h, of example_geo poi_node_100 100 "[10, 11]" 5 5] h
  show ?thesis by simp
qed

section \<open>Properties of the POI engine\<close>

lemma meridian_nearest_node:
  "get_nearest_street_node example_geo meridian_osm (Node 200 3 50 [(''addr:street'', ''Main St'')] []) [10, 11]
     = Inr (Some 1, Fin 50)"
  by (simp add: meridian_osm_def example_osm_def eval_defs get_nearest_street_node_def
      distance_points_def example_geo_def)

text \<open>
  Claim C3 asks for a direct connection to the nearest street node exactly when
  longitude and latitude both agree within \<open>1e-7\<close>. \<^verbatim>\<open>have_same_coords\<close> compares the
  latitude of the first point with itself, so the longitudes alone decide: the point of
  interest 200, on the meridian of street node 1 and 50 to the north of it, counts as
  having the coordinates of node 1, and \<^verbatim>\<open>connect_poi\<close> connects it to node 1 directly.
\<close>

theorem connect_poi_same_meridian:
  "have_same_coords (Some (Node 200 3 50 [(''addr:street'', ''Main St'')] []))
      (avl_get node_id (node_avl meridian_osm) 1) TOLERANCE \<and>
   map_option lat (avl_get node_id (node_avl meridian_osm) 200) = Some 50 \<and>
   map_option lat (avl_get node_id (node_avl meridian_osm) 1) = Some 0 \<and>
   \<not> \<bar>50 - 0\<bar> \<le> TOLERANCE \<and>
   fst (connect_poi_node example_geo meridian_osm 200 [10, 11] [] 0 5) = Inr () \<and>
   map_option nodeIDs (avl_get way_id
      (way_avl (snd (connect_poi_node example_geo meridian_osm 200 [10, 11] [] 0 5))) (- 1))
     = Some [200, 1]"
proof -
  have p: "the_node meridian_osm 200 = Inr (Node 200 3 50 [(''addr:street'', ''Main St'')] [])"
    by (simp add: meridian_osm_def example_osm_def eval_defs)
  have same: "have_same_coords (Some (Node 200 3 50 [(''addr:street'', ''Main St'')] []))
      (avl_get node_id (node_avl meridian_osm) 1) TOLERANCE"
    by (simp add: have_same_coords_def meridian_osm_def example_osm_def eval_defs TOLERANCE_def)
  have c: "fst (connect_by_node meridian_osm 200 1) = Inr (- 1) \<and>
     map_option nodeIDs (avl_get way_id (way_avl (snd (connect_by_node meridian_osm 200 1))) (- 1))
       = Some [200, 1]"
    by (simp add: meridian_osm_def example_osm_def eval_defs)
  obtain s1 where run: "connect_by_node meridian_osm 200 1 = (Inr (- 1), s1)"
    using c by (cases "connect_by_node meridian_osm 200 1") auto
  have "connect_poi_node example_geo meridian_osm 200 [10, 11] [] 0 5 =
     (Inr (), set_poi 200 POI_CONNECTED s1)"
    using same
    by (simp add: connect_poi_node_def p meridian_nearest_node get_nearest_building_def run)
       (simp add: Node_def)
  then show ?thesis
    using same c run
    by (simp add: set_poi_def upd_node_def)
       (simp add: meridian_osm_def example_osm_def eval_defs TOLERANCE_def)
qed



lemma segments_short: "length ns < 2 \<Longrightarrow> segments ns = []"
  by (cases ns; cases "tl ns") (auto simp: segments_def)








lemma fmin_update: "(if flt (Fin x) d0 then Fin x else d0) = fmin d0 (Fin x)"
  by (simp add: fmin_def)













































section \<open>Properties of partition labelling\<close>

lemmas bfs_eval_defs = filter_streets_def the_way_def the_node_def avl_get_def upd_way_def upd_node_def
  upd_partition_def add_street_def add_node_def Partition_def merge_boxes_def fmin_def fmax_def
  Node_def Let_def

text \<open>
  With street 11 before street 10 the same network is labelled differently: node 3 is
  in partition 1.
\<close>

lemma crossing_labels_other_order:
  "map_option (\<lambda>(r, pf, st). (r, map (\<lambda>n. (node_id n, n_partition_id n)) (node_avl st),
        map (\<lambda>w. (way_id w, w_partition_id w, w_filtered w)) (way_avl st)))
     (filter_streets [''footway''] [11, 10, 12, 13] crossing_osm) =
   Some (Inr (), [(1, 1), (2, 1), (3, 1), (4, - 1), (5, - 1)],
         [(10, 1, False), (11, 1, False), (12, - 1, True), (13, - 1, True)])"
  by (simp add: crossing_osm_def bfs_eval_defs bfs_queue.simps)

text \<open>
  Claim C5 asks that every node reachable from a street that is not filtered gets a
  partition id above zero. After \<^verbatim>\<open>filter_streets(['footway'])\<close> on the crossing example,
  with the streets in the order 10, 11, 12, 13, street 11 is not filtered and is in
  partition 1, while its node 3 keeps the id \<open>-1\<close>: the flood from node 2, a node of a
  filtered street, skips node 3, a node of another filtered street, although the edge
  between them belongs to street 11.
\<close>

theorem bfs_skips_edge_between_filtered_nodes:
  "map_option (\<lambda>(r, pf, st). (r, map (\<lambda>n. (node_id n, n_partition_id n)) (node_avl st),
        map (\<lambda>w. (way_id w, w_partition_id w, w_filtered w)) (way_avl st)))
     (filter_streets [''footway''] [10, 11, 12, 13] crossing_osm) =
   Some (Inr (), [(1, 1), (2, 1), (3, - 1), (4, - 1), (5, - 1)],
         [(10, 1, False), (11, 1, False), (12, - 1, True), (13, - 1, True)])"
  by (simp add: crossing_osm_def bfs_eval_defs bfs_queue.simps)

end
